theory Spec2Isabelle
  imports Complex_Main
begin

text \<open>
  A model of the client-side script of the Wanderlust Travel site: the validation of a
  search, the lookup of countries with the cancelling of the lookup before it, the
  display of results as cards and map markers, the loader of the featured destinations
  (all of \<^verbatim>\<open>script.js\<close>) and the favourites kept in local storage
  (\<^verbatim>\<open>features.js\<close>). Functions keep the names they have in the source; what the
  source does across an \<^verbatim>\<open>await\<close> is split into the part before and the part after.
\<close>

section \<open>JavaScript values\<close>

text \<open>
  A JavaScript string is a sequence of UTF-16 code units; \<^verbatim>\<open>length\<close>, \<^verbatim>\<open>trim\<close> and a
  regular expression without the \<^verbatim>\<open>u\<close> flag all work on code units. A code unit is
  kept as its number (below 65536; nothing here computes with it). String literals of the
  source are ASCII and are written \<open>lit ''...''\<close>.
\<close>

type_synonym jsstring = "nat list"

definition lit :: "string \<Rightarrow> jsstring" where
  "lit s = map of_char s"

text \<open>
  ECMAScript white space and line terminators: what \<^verbatim>\<open>String.prototype.trim\<close> strips
  and what \<^verbatim>\<open>\s\<close> matches.
\<close>

definition is_space :: "nat \<Rightarrow> bool" where
  "is_space c \<longleftrightarrow>
     c = 0x09 \<or> c = 0x0A \<or> c = 0x0B \<or> c = 0x0C \<or> c = 0x0D \<or> c = 0x20 \<or> c = 0xA0 \<or>
     c = 0x1680 \<or> (0x2000 \<le> c \<and> c \<le> 0x200A) \<or> c = 0x2028 \<or> c = 0x2029 \<or>
     c = 0x202F \<or> c = 0x205F \<or> c = 0x3000 \<or> c = 0xFEFF"

definition trim :: "jsstring \<Rightarrow> jsstring" where
  "trim s = rev (dropWhile is_space (rev (dropWhile is_space s)))"

text \<open>Decimal digits of a non-negative integer, as \<^verbatim>\<open>toString()\<close> prints it.\<close>

fun digits :: "nat \<Rightarrow> jsstring" where
  "digits n = (if n < 10 then [48 + n] else digits (n div 10) @ [48 + n mod 10])"

declare digits.simps [simp del]

text \<open>
  A value produced by \<^verbatim>\<open>JSON.parse\<close>. Objects keep their properties in the order in
  which \<^verbatim>\<open>Object.keys\<close> and \<^verbatim>\<open>Object.values\<close> enumerate them; a number is the
  mathematical value of the double.
\<close>

datatype json =
    JNull
  | JBool bool
  | JNum rat
  | JStr jsstring
  | JArr "json list"
  | JObj "(jsstring \<times> json) list"

text \<open>JavaScript truthiness (\<^verbatim>\<open>!v\<close>, \<^verbatim>\<open>v || d\<close>, \<^verbatim>\<open>v ? a : b\<close>) of a parsed value.\<close>

fun truthy :: "json \<Rightarrow> bool" where
  "truthy JNull = False"
| "truthy (JBool b) = b"
| "truthy (JNum x) = (x \<noteq> 0)"
| "truthy (JStr s) = (s \<noteq> [])"
| "truthy (JArr _) = True"
| "truthy (JObj _) = True"

text \<open>The exceptions and promise rejections that occur, by their \<^verbatim>\<open>name\<close>.\<close>

datatype js_error = TypeError | SyntaxError | AbortError | URIError | Error

section \<open>script.js: input validation\<close>

record validation =
  valid :: bool
  message :: jsstring

text \<open>The class \<^verbatim>\<open>[a-zA-Z\<close>U+00C0\<^verbatim>\<open>-\<close>U+00FF\<^verbatim>\<open>\s\-']\<close> of the format check.\<close>

definition format_char :: "nat \<Rightarrow> bool" where
  "format_char c \<longleftrightarrow>
     (0x61 \<le> c \<and> c \<le> 0x7A) \<or> (0x41 \<le> c \<and> c \<le> 0x5A) \<or> (0xC0 \<le> c \<and> c \<le> 0xFF) \<or>
     is_space c \<or> c = 0x2D \<or> c = 0x27"

text \<open>\<^verbatim>\<open>/^[...]+$/.test(trimmed)\<close>: one or more characters, all of the class.\<close>

definition format_test :: "jsstring \<Rightarrow> bool" where
  "format_test s \<longleftrightarrow> s \<noteq> [] \<and> list_all format_char s"

text \<open>
  \<^verbatim>\<open>validateSearchInput(value)\<close>; the value is the text of an input field, so
  \<^verbatim>\<open>!value\<close> holds for the empty string only.
\<close>

definition validateSearchInput :: "jsstring \<Rightarrow> validation" where
  "validateSearchInput v =
     (if v = [] \<or> trim v = [] then
        \<lparr>valid = False, message = lit ''Please enter a country name to search.''\<rparr>
      else let trimmed = trim v in
        if length trimmed < 2 then
          \<lparr>valid = False, message = lit ''Search must be at least 2 characters long.''\<rparr>
        else if length trimmed > 100 then
          \<lparr>valid = False, message = lit ''Search term is too long. Please shorten it.''\<rparr>
        else if \<not> format_test trimmed then
          \<lparr>valid = False, message = lit ''Please enter a valid country name (letters only).''\<rparr>
        else \<lparr>valid = True, message = []\<rparr>)"

text \<open>
  The letters of the class: a to z, A to Z, and U+00C0 to U+00FF without the two signs of
  that range, the multiplication sign U+00D7 and the division sign U+00F7.
\<close>

definition format_letter :: "nat \<Rightarrow> bool" where
  "format_letter c \<longleftrightarrow>
     (0x61 \<le> c \<and> c \<le> 0x7A) \<or> (0x41 \<le> c \<and> c \<le> 0x5A) \<or>
     (0xC0 \<le> c \<and> c \<le> 0xFF \<and> c \<noteq> 0xD7 \<and> c \<noteq> 0xF7)"

text \<open>
  The character class in the words of the specification: Unicode letters, white space,
  hyphen, apostrophe. Of the Unicode letters, those of the blocks Basic Latin, Latin-1
  Supplement and Latin Extended-A (U+0100 to U+017F, all of them letters) are listed; this
  is enough to compare the two classes.
\<close>

definition spec_letter :: "nat \<Rightarrow> bool" where
  "spec_letter c \<longleftrightarrow>
     (0x41 \<le> c \<and> c \<le> 0x5A) \<or> (0x61 \<le> c \<and> c \<le> 0x7A) \<or>
     c = 0xAA \<or> c = 0xB5 \<or> c = 0xBA \<or>
     (0xC0 \<le> c \<and> c \<le> 0xD6) \<or> (0xD8 \<le> c \<and> c \<le> 0xF6) \<or> (0xF8 \<le> c \<and> c \<le> 0xFF) \<or>
     (0x100 \<le> c \<and> c \<le> 0x17F)"

definition spec_char :: "nat \<Rightarrow> bool" where
  "spec_char c \<longleftrightarrow> spec_letter c \<or> is_space c \<or> c = 0x2D \<or> c = 0x27"

section \<open>script.js: country cards\<close>

text \<open>
  A country object of the REST Countries API, every field optional. \<open>name_common\<close> is
  \<^verbatim>\<open>country.name.common\<close> and is \<open>None\<close> when \<^verbatim>\<open>name\<close> or \<^verbatim>\<open>common\<close> is
  missing; likewise \<^verbatim>\<open>flags.svg\<close> and \<^verbatim>\<open>flags.png\<close>. \<open>currencies\<close> lists, in
  \<^verbatim>\<open>Object.keys\<close> order, each currency code with the \<^verbatim>\<open>name\<close> of its object;
  \<open>languages\<close> lists code and language name in \<^verbatim>\<open>Object.values\<close> order. The
  population is a non-negative integer that a double holds exactly (below \<open>2^53\<close>).
\<close>

record country =
  name_common :: "jsstring option"
  flags_svg :: "jsstring option"
  flags_png :: "jsstring option"
  region :: "jsstring option"
  subregion :: "jsstring option"
  population :: "nat option"
  capital :: "jsstring list option"
  currencies :: "(jsstring \<times> jsstring option) list option"
  languages :: "(jsstring \<times> jsstring) list option"
  latlng :: "rat list option"

text \<open>\<^verbatim>\<open>s ? s : d\<close> for an optional string: missing and empty are both falsy.\<close>

definition or_default :: "jsstring option \<Rightarrow> jsstring \<Rightarrow> jsstring" where
  "or_default s d = (case s of Some (x # xs) \<Rightarrow> x # xs | _ \<Rightarrow> d)"

subsection \<open>Number formatting\<close>

text \<open>
  \<^verbatim>\<open>country.population / 1000000\<close> is a division of doubles: the quotient is rounded
  to the nearest double, ties to the even significand. \<open>to_double\<close> does this for a
  rational that is at least 1: with \<open>k\<close> the number of bits of its integer part, the
  53-bit significand is the rational scaled by \<open>2^(53-k)\<close> and rounded.
\<close>

fun bit_length :: "nat \<Rightarrow> nat" where
  "bit_length n = (if n = 0 then 0 else Suc (bit_length (n div 2)))"

declare bit_length.simps [simp del]

definition round_even :: "rat \<Rightarrow> int" where
  "round_even y =
     (let f = \<lfloor>y\<rfloor>; d = y - of_int f in
      if d < 1 / 2 then f else if 1 / 2 < d then f + 1
      else if even f then f else f + 1)"

definition to_double :: "rat \<Rightarrow> rat" where
  "to_double r =
     (let k = bit_length (nat \<lfloor>r\<rfloor>) in
      if k \<le> 53 then of_int (round_even (r * 2 ^ (53 - k))) / 2 ^ (53 - k)
      else of_int (round_even (r / 2 ^ (k - 53))) * 2 ^ (k - 53))"

text \<open>The quotient of two integers, the first not below the second.\<close>

definition js_div :: "nat \<Rightarrow> nat \<Rightarrow> rat" where
  "js_div a b = to_double (of_nat a / of_nat b)"

text \<open>
  \<^verbatim>\<open>x.toFixed(f)\<close> for \<open>0 \<le> x < 10^21\<close>: the integer \<open>n\<close> with \<open>n / 10^f\<close> nearest
  to \<open>x\<close>, the larger one on a tie, printed with \<open>f\<close> digits after the point.
\<close>

definition toFixed :: "rat \<Rightarrow> nat \<Rightarrow> jsstring" where
  "toFixed x f =
     (let n = nat \<lfloor>x * 10 ^ f + 1 / 2\<rfloor> in
      if f = 0 then digits n
      else let fr = digits (n mod 10 ^ f) in
        digits (n div 10 ^ f) @ lit ''.'' @ replicate (f - length fr) 48 @ fr)"

text \<open>The population badge of \<^verbatim>\<open>createCountryCard\<close>.\<close>

definition format_population :: "nat option \<Rightarrow> jsstring" where
  "format_population pop =
     (case pop of
        None \<Rightarrow> lit ''N/A''
      | Some p \<Rightarrow>
          if p = 0 then lit ''N/A''
          else if p \<ge> 1000000 then toFixed (js_div p 1000000) 1 @ lit ''M''
          else if p \<ge> 1000 then toFixed (js_div p 1000) 0 @ lit ''K''
          else digits p)"

subsection \<open>The card\<close>

text \<open>\<^verbatim>\<open>Array.prototype.join(", ")\<close> on strings.\<close>

fun join_comma :: "jsstring list \<Rightarrow> jsstring" where
  "join_comma [] = []"
| "join_comma [x] = x"
| "join_comma (x # y # ys) = x @ lit '', '' @ join_comma (y # ys)"

text \<open>
  The values that \<^verbatim>\<open>createCountryCard\<close> extracts and writes into the card's HTML.
  The ``View on Map'' button exists when \<open>card_lat\<close> and \<open>card_lng\<close> are both present.
\<close>

record card =
  card_name :: jsstring
  card_flag :: jsstring
  card_region :: jsstring
  card_subregion :: jsstring
  card_population :: jsstring
  card_capital :: jsstring
  card_currencies :: jsstring
  card_languages :: jsstring
  card_lat :: "rat option"
  card_lng :: "rat option"

definition country_name :: "country \<Rightarrow> jsstring" where
  "country_name c = or_default (name_common c) (lit ''Unknown'')"

definition country_capital :: "country \<Rightarrow> jsstring" where
  "country_capital c =
     (case capital c of
        Some (x # xs) \<Rightarrow> x
      | _ \<Rightarrow> lit ''N/A'')"

text \<open>\<^verbatim>\<open>country.latlng && country.latlng.length >= 2\<close>\<close>

definition has_coordinates :: "country \<Rightarrow> bool" where
  "has_coordinates c = (case latlng c of Some (la # lo # _) \<Rightarrow> True | _ \<Rightarrow> False)"

definition createCountryCard :: "country \<Rightarrow> card" where
  "createCountryCard c =
     \<lparr>card_name = country_name c,
      card_flag = or_default (flags_svg c) (or_default (flags_png c) []),
      card_region = or_default (region c) (lit ''Unknown Region''),
      card_subregion = or_default (subregion c) [],
      card_population = format_population (population c),
      card_capital = country_capital c,
      card_currencies =
        (case currencies c of
           None \<Rightarrow> lit ''N/A''
         | Some cur \<Rightarrow> join_comma (map (\<lambda>(code, nm). case nm of None \<Rightarrow> [] | Some n \<Rightarrow> n) cur)),
      card_languages =
        (case languages c of
           None \<Rightarrow> lit ''N/A''
         | Some ls \<Rightarrow> join_comma (take 3 (map snd ls))),
      card_lat = (case latlng c of Some (la # lo # _) \<Rightarrow> Some la | _ \<Rightarrow> None),
      card_lng = (case latlng c of Some (la # lo # _) \<Rightarrow> Some lo | _ \<Rightarrow> None)\<rparr>"

section \<open>script.js: map and results\<close>

text \<open>
  Leaflet is an external library; a map is kept as what the script's calls leave behind:
  the markers added and not removed, and the last command that set the viewport.
  \<^verbatim>\<open>setView([lat, lng], zoom)\<close> is \<open>SetView lat lng zoom\<close>, and
  \<^verbatim>\<open>fitBounds(L.featureGroup(ms).getBounds().pad(r))\<close> is \<open>FitBounds ms r\<close>.
  Coordinates and the padding 0.3 are kept as rationals; nothing is computed from them.
\<close>

record marker =
  m_lat :: rat
  m_lng :: rat
  popup :: jsstring

datatype viewport = SetView rat rat nat | FitBounds "marker list" rat

record leaflet_map =
  layers :: "marker list"
  view :: viewport

text \<open>\<^verbatim>\<open>initMap(elementId)\<close>, given whether the element exists.\<close>

definition initMap :: "bool \<Rightarrow> leaflet_map option" where
  "initMap mapElement =
     (if \<not> mapElement then None else Some \<lparr>layers = [], view = SetView 20 0 2\<rparr>)"

text \<open>
  \<^verbatim>\<open>markerArray[i].remove()\<close> for every marker of the array: each is taken off the
  map, the only one the script ever adds the array's markers to.
\<close>

fun remove_markers :: "marker list \<Rightarrow> marker list \<Rightarrow> marker list" where
  "remove_markers [] ls = ls"
| "remove_markers (m # ms) ls = remove_markers ms (remove1 m ls)"

text \<open>
  The loop of \<^verbatim>\<open>displayResults\<close> over the countries: each gets a card; one with
  coordinates also gets a marker on the map and in the array, when there is a map.
\<close>

definition country_marker :: "country \<Rightarrow> marker" where
  "country_marker c =
     \<lparr>m_lat = (case latlng c of Some (la # lo # _) \<Rightarrow> la | _ \<Rightarrow> 0),
      m_lng = (case latlng c of Some (la # lo # _) \<Rightarrow> lo | _ \<Rightarrow> 0),
      popup = lit ''<strong>'' @ country_name c @ lit ''</strong><br>Capital: '' @ country_capital c\<rparr>"

fun display_loop ::
  "country list \<Rightarrow> card list \<Rightarrow> leaflet_map option \<Rightarrow> marker list \<Rightarrow>
   card list \<times> leaflet_map option \<times> marker list" where
  "display_loop [] grid mapInstance markerArray = (grid, mapInstance, markerArray)"
| "display_loop (c # cs) grid mapInstance markerArray =
     (let grid' = grid @ [createCountryCard c] in
      case mapInstance of
        Some mp \<Rightarrow>
          if has_coordinates c then
            display_loop cs grid' (Some (mp\<lparr>layers := layers mp @ [country_marker c]\<rparr>))
              (markerArray @ [country_marker c])
          else display_loop cs grid' mapInstance markerArray
      | None \<Rightarrow> display_loop cs grid' mapInstance markerArray)"

text \<open>
  \<^verbatim>\<open>displayResults(countries, gridId, mapInstance, markerArray)\<close> on the three things it
  changes: the cards of the grid element (\<open>None\<close>: no such element), the map and the
  marker array.
\<close>

definition displayResults ::
  "country list \<Rightarrow> card list option \<Rightarrow> leaflet_map option \<Rightarrow> marker list \<Rightarrow>
   card list option \<times> leaflet_map option \<times> marker list" where
  "displayResults countries grid mapInstance markerArray =
     (case grid of
        None \<Rightarrow> (grid, mapInstance, markerArray)
      | Some _ \<Rightarrow>
          let cleared = map_option (\<lambda>mp. mp\<lparr>layers := remove_markers markerArray (layers mp)\<rparr>)
                          mapInstance;
              (grid', map', markers') = display_loop countries [] cleared []
          in (Some grid',
              (case map' of
                 Some mp \<Rightarrow>
                   if length markers' > 0 then Some (mp\<lparr>view := FitBounds markers' (3 / 10)\<rparr>)
                   else Some mp
               | None \<Rightarrow> None),
              markers'))"

section \<open>script.js: searching\<close>

text \<open>
  The state of one document running the script: the global variables, the elements the
  script looks up by id (an absent id: no such element), the requests in flight, and a
  log of the lookups sent. A search request is known by its \<^verbatim>\<open>AbortController\<close>;
  controllers are numbered in the order of their creation, and \<open>aborted\<close> holds those
  whose \<^verbatim>\<open>abort()\<close> was called.
\<close>

datatype surface = Home | Dest

record feedback_el =
  textContent :: jsstring
  className :: jsstring

record request =
  req_controller :: nat
  req_query :: jsstring
  req_feedbackId :: string
  req_spinnerId :: string
  req_surface :: surface

record page =
  mainMap :: "leaflet_map option"
  destMap :: "leaflet_map option"
  mainMarkers :: "marker list"
  destMarkers :: "marker list"
  currentAbortController :: "nat option"
  aborted :: "nat set"
  controllers :: nat
  has_searchForm :: bool
  has_destSearchForm :: bool
  has_map_div :: bool
  feedbacks :: "string \<rightharpoonup> feedback_el"
  hide_timers :: "string list"
  spinners :: "string \<rightharpoonup> bool"
  grids :: "string \<rightharpoonup> card list"
  results_section :: "bool option"
  results_title :: "jsstring option"
  results_count :: "jsstring option"
  map_container :: "bool option"
  pending :: "request list"
  fetched :: "jsstring list"

text \<open>
  \<^verbatim>\<open>showFeedback(elementId, message, type)\<close>. The call also starts a six-second timer
  that clears the element; \<open>hide_timers\<close> lists the timers not yet fired, oldest first.
\<close>

definition showFeedback :: "string \<Rightarrow> jsstring \<Rightarrow> jsstring \<Rightarrow> page \<Rightarrow> page" where
  "showFeedback elementId msg type p =
     (case feedbacks p elementId of
        None \<Rightarrow> p
      | Some _ \<Rightarrow>
          p\<lparr>feedbacks := (feedbacks p)(elementId \<mapsto>
                \<lparr>textContent = msg, className = lit ''feedback '' @ type\<rparr>),
            hide_timers := hide_timers p @ [elementId]\<rparr>)"

definition toggleSpinner :: "string \<Rightarrow> bool \<Rightarrow> page \<Rightarrow> page" where
  "toggleSpinner spinnerId show p =
     (case spinners p spinnerId of
        None \<Rightarrow> p
      | Some _ \<Rightarrow> p\<lparr>spinners := (spinners p)(spinnerId \<mapsto> show)\<rparr>)"

text \<open>
  \<^verbatim>\<open>encodeURIComponent\<close> throws a URIError on a surrogate code unit that is not part
  of a pair.
\<close>

fun well_formed :: "jsstring \<Rightarrow> bool" where
  "well_formed [] = True"
| "well_formed [c] = (\<not> (0xD800 \<le> c \<and> c \<le> 0xDFFF))"
| "well_formed (c # d # cs) =
     (if 0xD800 \<le> c \<and> c \<le> 0xDBFF then 0xDC00 \<le> d \<and> d \<le> 0xDFFF \<and> well_formed cs
      else \<not> (0xDC00 \<le> c \<and> c \<le> 0xDFFF) \<and> well_formed (d # cs))"

text \<open>
  What a lookup comes back with: \<^verbatim>\<open>fetch\<close> rejects, or resolves to a response with a
  status; the body of a response is read by \<^verbatim>\<open>response.json()\<close>, which rejects or
  gives the parsed payload: an array of country objects, or a value that is no array
  (\<open>VObj\<close>: an object without a \<^verbatim>\<open>length\<close> property, such as the API's error object).
\<close>

datatype non_array = VNull | VBool bool | VNum rat | VStr jsstring | VObj

datatype payload = NonArray non_array | Array "country list"

datatype body_outcome = JsonRejected js_error | JsonValue payload

datatype fetch_outcome = FetchRejected js_error | FetchResponse nat body_outcome

definition response_ok :: "nat \<Rightarrow> bool" where
  "response_ok status \<longleftrightarrow> 200 \<le> status \<and> status \<le> 299"

text \<open>
  The first part of \<^verbatim>\<open>searchCountries\<close>, up to the \<^verbatim>\<open>await fetch(...)\<close>: the
  controller in use is aborted and replaced, the spinner is shown and the lookup of the
  trimmed query is sent with the new controller's signal. When
  \<^verbatim>\<open>encodeURIComponent\<close> throws, nothing is sent: the catch block shows the error, the
  finally block hides the spinner and the function returns the empty array.
\<close>

definition searchCountries_start ::
  "jsstring \<Rightarrow> string \<Rightarrow> string \<Rightarrow> surface \<Rightarrow> page \<Rightarrow> page" where
  "searchCountries_start query feedbackId spinnerId sf p =
     (let c = controllers p;
          p1 = p\<lparr>aborted := (case currentAbortController p of
                                None \<Rightarrow> aborted p
                              | Some old \<Rightarrow> insert old (aborted p)),
                 currentAbortController := Some c,
                 controllers := Suc c\<rparr>;
          p2 = toggleSpinner spinnerId True p1
      in if well_formed (trim query) then
           p2\<lparr>pending := pending p2 @
                  [\<lparr>req_controller = c, req_query = query, req_feedbackId = feedbackId,
                    req_spinnerId = spinnerId, req_surface = sf\<rparr>],
              fetched := fetched p2 @ [trim query]\<rparr>
         else
           toggleSpinner spinnerId False
             (showFeedback feedbackId
                (lit ''Unable to load destinations. Please check your internet connection and try again.'')
                (lit ''error'') p2))"

text \<open>
  The rest of \<^verbatim>\<open>searchCountries\<close>, from the outcome of the lookup on: the array it
  returns and the feedback it shows, if any (message and type). The quotation mark is
  code unit 34.
\<close>

definition catch_block :: "js_error \<Rightarrow> country list \<times> (jsstring \<times> jsstring) option" where
  "catch_block e =
     (if e = AbortError then ([], None)
      else ([], Some (lit ''Unable to load destinations. Please check your internet connection and try again.'',
                      lit ''error'')))"

definition searchCountries_result ::
  "jsstring \<Rightarrow> fetch_outcome \<Rightarrow> country list \<times> (jsstring \<times> jsstring) option" where
  "searchCountries_result query out =
     (case out of
        FetchRejected e \<Rightarrow> catch_block e
      | FetchResponse status body \<Rightarrow>
          if \<not> response_ok status then
            if status = 404 then
              ([], Some (lit ''No countries found matching '' @ [34] @ query @ [34] @
                           lit ''. Try a different search.'', lit ''info''))
            else catch_block Error
          else
            (case body of
               JsonRejected e \<Rightarrow> catch_block e
             | JsonValue (NonArray v) \<Rightarrow>
                 ([], Some (lit ''No results found. Try another search.'', lit ''info''))
             | JsonValue (Array []) \<Rightarrow>
                 ([], Some (lit ''No results found. Try another search.'', lit ''info''))
             | JsonValue (Array (c # cs)) \<Rightarrow> (c # cs, None)))"

text \<open>The same with its effects on the page; the finally block hides the spinner.\<close>

definition searchCountries_settle :: "request \<Rightarrow> fetch_outcome \<Rightarrow> page \<Rightarrow> country list \<times> page" where
  "searchCountries_settle r out p =
     (let (countries, fb) = searchCountries_result (req_query r) out;
          p1 = (case fb of
                  None \<Rightarrow> p
                | Some (msg, type) \<Rightarrow> showFeedback (req_feedbackId r) msg type p)
      in (countries, toggleSpinner (req_spinnerId r) False p1))"

subsection \<open>The two search forms\<close>

text \<open>
  The submit handler of \<^verbatim>\<open>search-form\<close> up to its \<^verbatim>\<open>await\<close>. Focusing the input and
  the timer that calls \<^verbatim>\<open>invalidateSize\<close> leave nothing in this state.
\<close>

definition searchForm_submit :: "jsstring \<Rightarrow> page \<Rightarrow> page" where
  "searchForm_submit query p =
     (let validation = validateSearchInput query in
      if \<not> valid validation then
        showFeedback ''search-feedback'' (message validation) (lit ''error'') p
      else
        let p1 = p\<lparr>results_section := map_option (\<lambda>_. True) (results_section p)\<rparr>;
            p2 = (if mainMap p1 = None then p1\<lparr>mainMap := initMap (has_map_div p1)\<rparr> else p1);
            p3 = p2\<lparr>map_container := map_option (\<lambda>_. True) (map_container p2)\<rparr>
        in searchCountries_start query ''search-feedback'' ''search-spinner'' Home p3)"

text \<open>\<^verbatim>\<open>displayResults\<close> called on the home page's grid, map and markers.\<close>

definition display_home :: "country list \<Rightarrow> page \<Rightarrow> page" where
  "display_home countries p =
     (let (g, mp, ms) = displayResults countries (grids p ''results-grid'') (mainMap p) (mainMarkers p)
      in p\<lparr>grids := (case g of None \<Rightarrow> grids p | Some cards \<Rightarrow> (grids p)(''results-grid'' \<mapsto> cards)),
           mainMap := mp, mainMarkers := ms\<rparr>)"

definition display_dest :: "country list \<Rightarrow> page \<Rightarrow> page" where
  "display_dest countries p =
     (let (g, mp, ms) = displayResults countries (grids p ''dest-grid'') (destMap p) (destMarkers p)
      in p\<lparr>grids := (case g of None \<Rightarrow> grids p | Some cards \<Rightarrow> (grids p)(''dest-grid'' \<mapsto> cards)),
           destMap := mp, destMarkers := ms\<rparr>)"

text \<open>
  The handler of \<^verbatim>\<open>search-form\<close> after the \<^verbatim>\<open>await\<close>, given the array returned.
  The closing \<^verbatim>\<open>scrollIntoView\<close> changes nothing kept here.
\<close>

definition searchForm_resume :: "jsstring \<Rightarrow> country list \<Rightarrow> page \<Rightarrow> page" where
  "searchForm_resume query countries p =
     (if length countries > 0 then
        let p1 = p\<lparr>results_title :=
                     map_option (\<lambda>_. lit ''Results for '' @ [34] @ trim query @ [34]) (results_title p)\<rparr>;
            p2 = p1\<lparr>results_count :=
                     map_option (\<lambda>_. digits (length countries) @ lit '' destination'' @
                                      (if length countries > 1 then lit ''s'' else []) @ lit '' found'')
                       (results_count p1)\<rparr>
        in display_home countries p2
      else p)"

text \<open>The submit handler of \<^verbatim>\<open>dest-search-form\<close>, before and after its \<^verbatim>\<open>await\<close>.\<close>

definition destSearchForm_submit :: "jsstring \<Rightarrow> page \<Rightarrow> page" where
  "destSearchForm_submit query p =
     (let validation = validateSearchInput query in
      if \<not> valid validation then
        showFeedback ''dest-feedback'' (message validation) (lit ''error'') p
      else searchCountries_start query ''dest-feedback'' ''dest-spinner'' Dest p)"

definition destSearchForm_resume :: "country list \<Rightarrow> page \<Rightarrow> page" where
  "destSearchForm_resume countries p =
     (if length countries > 0 then display_dest countries p else p)"

subsection \<open>Events\<close>

text \<open>
  The document reacts to events one at a time: a form is submitted, a lookup settles, a
  feedback timer fires. A lookup settles with what the network delivers, unless its
  controller has been aborted: \<^verbatim>\<open>fetch\<close> and \<^verbatim>\<open>response.json()\<close> then reject with
  an AbortError. A response that is not ok is handled as soon as its status is known; for
  one that is ok nothing happens before the body is read, so both are one event.
  \<open>Http status body\<close> is a response with this status whose body parses to the payload,
  or does not parse (\<open>None\<close>).
\<close>

datatype transport = NetworkFailure | Http nat "payload option"

definition delivered :: "transport \<Rightarrow> fetch_outcome" where
  "delivered t =
     (case t of
        NetworkFailure \<Rightarrow> FetchRejected TypeError
      | Http status None \<Rightarrow> FetchResponse status (JsonRejected SyntaxError)
      | Http status (Some d) \<Rightarrow> FetchResponse status (JsonValue d))"

definition observed :: "page \<Rightarrow> request \<Rightarrow> transport \<Rightarrow> fetch_outcome" where
  "observed p r t =
     (if req_controller r \<in> aborted p then FetchRejected AbortError else delivered t)"

datatype event =
    SubmitHome jsstring
  | SubmitDest jsstring
  | Settle nat transport
  | HideTimer

definition in_flight :: "page \<Rightarrow> nat \<Rightarrow> request option" where
  "in_flight p c = find (\<lambda>r. req_controller r = c) (pending p)"

definition settle :: "nat \<Rightarrow> transport \<Rightarrow> page \<Rightarrow> page" where
  "settle c t p =
     (case in_flight p c of
        None \<Rightarrow> p
      | Some r \<Rightarrow>
          let p0 = p\<lparr>pending := filter (\<lambda>r'. req_controller r' \<noteq> c) (pending p)\<rparr>;
              (countries, p1) = searchCountries_settle r (observed p r t) p0
          in (case req_surface r of
                Home \<Rightarrow> searchForm_resume (req_query r) countries p1
              | Dest \<Rightarrow> destSearchForm_resume countries p1))"

definition hide_timer :: "page \<Rightarrow> page" where
  "hide_timer p =
     (case hide_timers p of
        [] \<Rightarrow> p
      | elementId # rest \<Rightarrow>
          p\<lparr>feedbacks := (feedbacks p)(elementId \<mapsto> \<lparr>textContent = [], className = lit ''feedback''\<rparr>),
            hide_timers := rest\<rparr>)"

fun step :: "event \<Rightarrow> page \<Rightarrow> page" where
  "step (SubmitHome q) p = (if has_searchForm p then searchForm_submit q p else p)"
| "step (SubmitDest q) p = (if has_destSearchForm p then destSearchForm_submit q p else p)"
| "step (Settle c t) p = settle c t p"
| "step HideTimer p = hide_timer p"

fun run :: "event list \<Rightarrow> page \<Rightarrow> page" where
  "run [] p = p"
| "run (e # es) p = run es (step e p)"

text \<open>
  The document once the script has run: no controller yet, no markers, the destinations
  map created when the page has the destinations form. The arguments say which elements
  the page has.
\<close>

definition loaded ::
  "bool \<Rightarrow> bool \<Rightarrow> bool \<Rightarrow> bool \<Rightarrow> string list \<Rightarrow> string list \<Rightarrow> string list \<Rightarrow> page" where
  "loaded searchForm destSearchForm map_div dest_map_div feedback_ids spinner_ids grid_ids =
     \<lparr>mainMap = None,
      destMap = (if destSearchForm then initMap dest_map_div else None),
      mainMarkers = [], destMarkers = [],
      currentAbortController = None, aborted = {}, controllers = 0,
      has_searchForm = searchForm, has_destSearchForm = destSearchForm, has_map_div = map_div,
      feedbacks = map_of (map (\<lambda>i. (i, \<lparr>textContent = [], className = lit ''feedback''\<rparr>)) feedback_ids),
      hide_timers = [],
      spinners = map_of (map (\<lambda>i. (i, False)) spinner_ids),
      grids = map_of (map (\<lambda>i. (i, [])) grid_ids),
      results_section = Some False, results_title = Some [], results_count = Some [],
      map_container = Some False,
      pending = [], fetched = []\<rparr>"

subsection \<open>Outcomes and what is displayed\<close>

text \<open>
  The outcome of a lookup in the specification's terms, read off what
  \<^verbatim>\<open>searchCountries\<close> returns and shows: a non-empty array is a success; the empty
  array comes with an informational notice (empty), with an error notice (network error)
  or with no notice at all (cancelled).
\<close>

datatype lookup_outcome = is_Success: Success "country list" | Empty | NetworkError | Cancelled

definition lookup_outcome :: "jsstring \<Rightarrow> fetch_outcome \<Rightarrow> lookup_outcome" where
  "lookup_outcome query out =
     (case searchCountries_result query out of
        (c # cs, fb) \<Rightarrow> Success (c # cs)
      | ([], None) \<Rightarrow> Cancelled
      | ([], Some (msg, type)) \<Rightarrow> if type = lit ''info'' then Empty else NetworkError)"

text \<open>
  What a surface displays: the cards of its grid, its marker array and the markers on
  its map.
\<close>

definition shown_markers :: "leaflet_map option \<Rightarrow> marker list" where
  "shown_markers m = (case m of None \<Rightarrow> [] | Some mp \<Rightarrow> layers mp)"

fun viewState :: "surface \<Rightarrow> page \<Rightarrow> card list option \<times> marker list \<times> marker list" where
  "viewState Home p = (grids p ''results-grid'', mainMarkers p, shown_markers (mainMap p))"
| "viewState Dest p = (grids p ''dest-grid'', destMarkers p, shown_markers (destMap p))"

fun submit :: "surface \<Rightarrow> jsstring \<Rightarrow> event" where
  "submit Home q = SubmitHome q"
| "submit Dest q = SubmitDest q"

fun has_form :: "surface \<Rightarrow> page \<Rightarrow> bool" where
  "has_form Home p = has_searchForm p"
| "has_form Dest p = has_destSearchForm p"

text \<open>
  What holds of the requests in flight in every state the document can reach: each has
  its own controller, created earlier, and that controller is the current one or has been
  aborted.
\<close>

definition page_inv :: "page \<Rightarrow> bool" where
  "page_inv p \<longleftrightarrow>
     distinct (map req_controller (pending p)) \<and>
     list_all (\<lambda>r. req_controller r < controllers p) (pending p) \<and>
     list_all (\<lambda>r. currentAbortController p = Some (req_controller r) \<or>
                    req_controller r \<in> aborted p) (pending p)"

text \<open>
  The markers on a surface's map are those of its marker array: the script adds a marker
  to both and removes the array's markers from the map before it empties the array.
\<close>

definition markers_inv :: "page \<Rightarrow> bool" where
  "markers_inv p \<longleftrightarrow>
     shown_markers (mainMap p) = mainMarkers p \<and> shown_markers (destMap p) = destMarkers p"

text \<open>
  The site's pages hold one search form each: \<^verbatim>\<open>index.html\<close> the form
  \<^verbatim>\<open>search-form\<close>, \<^verbatim>\<open>destinations.html\<close> the form \<^verbatim>\<open>dest-search-form\<close>. Every
  page loads the script anew, with its own global variables; this is why each handler is
  registered only when its form is found.
\<close>

definition one_form :: "page \<Rightarrow> bool" where
  "one_form p \<longleftrightarrow> \<not> (has_searchForm p \<and> has_destSearchForm p)"


text \<open>A request in flight was issued by the handler of a form the page has.\<close>

definition forms_inv :: "page \<Rightarrow> bool" where
  "forms_inv p \<longleftrightarrow> list_all (\<lambda>r. has_form (req_surface r) p) (pending p)"

section \<open>script.js: featured destinations\<close>

definition featuredCountries :: "jsstring list" where
  "featuredCountries =
     [lit ''Japan'', lit ''Italy'', lit ''Brazil'', lit ''Australia'', lit ''Morocco'', lit ''Iceland'']"

text \<open>
  The loader runs on a page that has the element \<^verbatim>\<open>featured-grid\<close>; it passes no
  abort signal and shares nothing with the searches. Its state: the cards in the grid,
  the names looked up so far (each with \<^verbatim>\<open>?fullText=true\<close>) and the names
  reported by \<^verbatim>\<open>console.warn\<close>.
\<close>

record featured =
  f_grid :: "card list"
  f_fetched :: "jsstring list"
  f_warned :: "jsstring list"

text \<open>A country object with no field at all; a string's character read as a country is one.\<close>

definition no_fields :: country where
  "no_fields =
     \<lparr>name_common = None, flags_svg = None, flags_png = None, region = None, subregion = None,
      population = None, capital = None, currencies = None, languages = None, latlng = None\<rparr>"

text \<open>
  The card that one pass of the loop appends, if any: \<^verbatim>\<open>response.ok\<close>, then
  \<^verbatim>\<open>data && data.length > 0\<close>, then \<^verbatim>\<open>createCountryCard(data[0])\<close>.
\<close>

definition featured_card :: "fetch_outcome \<Rightarrow> card option" where
  "featured_card out =
     (case out of
        FetchRejected e \<Rightarrow> None
      | FetchResponse status body \<Rightarrow>
          if response_ok status then
            (case body of
               JsonRejected e \<Rightarrow> None
             | JsonValue (Array []) \<Rightarrow> None
             | JsonValue (Array (c # cs)) \<Rightarrow> Some (createCountryCard c)
             | JsonValue (NonArray (VStr (x # xs))) \<Rightarrow> Some (createCountryCard no_fields)
             | JsonValue (NonArray v) \<Rightarrow> None)
          else None)"

text \<open>The catch block is entered when \<^verbatim>\<open>fetch\<close> or \<^verbatim>\<open>response.json()\<close> rejects.\<close>

definition featured_caught :: "fetch_outcome \<Rightarrow> bool" where
  "featured_caught out =
     (case out of
        FetchRejected e \<Rightarrow> True
      | FetchResponse status body \<Rightarrow>
          response_ok status \<and> (case body of JsonRejected e \<Rightarrow> True | JsonValue d \<Rightarrow> False))"

definition featured_pass :: "jsstring \<Rightarrow> fetch_outcome \<Rightarrow> featured \<Rightarrow> featured" where
  "featured_pass name out st =
     st\<lparr>f_fetched := f_fetched st @ [name],
        f_grid := (case featured_card out of None \<Rightarrow> f_grid st | Some cd \<Rightarrow> f_grid st @ [cd]),
        f_warned := (if featured_caught out then f_warned st @ [name] else f_warned st)\<rparr>"

text \<open>
  The loop awaits each lookup before the next; \<open>net\<close> gives the outcome of the lookup
  of each name.
\<close>

fun featured_loop :: "jsstring list \<Rightarrow> (jsstring \<Rightarrow> fetch_outcome) \<Rightarrow> featured \<Rightarrow> featured" where
  "featured_loop [] net st = st"
| "featured_loop (n # ns) net st = featured_loop ns net (featured_pass n (net n) st)"

definition loadFeaturedDestinations :: "(jsstring \<Rightarrow> fetch_outcome) \<Rightarrow> card list \<Rightarrow> featured" where
  "loadFeaturedDestinations net grid =
     featured_loop featuredCountries net \<lparr>f_grid = grid, f_fetched = [], f_warned = []\<rparr>"

text \<open>
  The outcomes the specification calls a failed lookup: a network error, a status that is
  not 2xx, an empty result.
\<close>

definition lookup_failed :: "fetch_outcome \<Rightarrow> bool" where
  "lookup_failed out =
     (case out of
        FetchRejected e \<Rightarrow> True
      | FetchResponse status body \<Rightarrow>
          \<not> response_ok status \<or> body = JsonValue (Array []))"

section \<open>features.js: favourites in localStorage\<close>

text \<open>
  What is stored under the key \<^verbatim>\<open>wanderlust-favourites\<close>: nothing
  (\<^verbatim>\<open>getItem\<close> gives \<^verbatim>\<open>null\<close>), a text that \<^verbatim>\<open>JSON.parse\<close>
  rejects, or a text that parses to a value. \<^verbatim>\<open>JSON.stringify\<close> of an array of
  strings followed by \<^verbatim>\<open>JSON.parse\<close> gives the array back, so a saved list is
  kept as the value it parses to. \<^verbatim>\<open>setItem\<close> throws when the storage is full.
\<close>

datatype stored = Absent | Malformed | Parses json

record localStorage =
  item :: stored
  full :: bool

text \<open>\<^verbatim>\<open>JSON.parse(localStorage.getItem(FAVOURITES_KEY)) || []\<close>, with the catch.\<close>

definition getFavourites :: "localStorage \<Rightarrow> json" where
  "getFavourites ls =
     (case item ls of
        Absent \<Rightarrow> JArr []
      | Malformed \<Rightarrow> JArr []
      | Parses v \<Rightarrow> if truthy v then v else JArr [])"

text \<open>\<^verbatim>\<open>localStorage.setItem(FAVOURITES_KEY, JSON.stringify(favs))\<close>, with the catch.\<close>

definition saveFavourites :: "json \<Rightarrow> localStorage \<Rightarrow> localStorage" where
  "saveFavourites favs ls = (if full ls then ls else ls\<lparr>item := Parses favs\<rparr>)"

text \<open>\<^verbatim>\<open>Array.prototype.indexOf\<close>: first position holding a strictly equal value, else -1.\<close>

fun indexOf_from :: "json list \<Rightarrow> json \<Rightarrow> int \<Rightarrow> int" where
  "indexOf_from [] v i = -1"
| "indexOf_from (x # xs) v i = (if x = v then i else indexOf_from xs v (i + 1))"

definition indexOf :: "json list \<Rightarrow> json \<Rightarrow> int" where
  "indexOf xs v = indexOf_from xs v 0"

text \<open>\<^verbatim>\<open>String.prototype.indexOf\<close> is only compared with -1 here: a substring test.\<close>

fun is_prefix :: "jsstring \<Rightarrow> jsstring \<Rightarrow> bool" where
  "is_prefix [] ys = True"
| "is_prefix (x # xs) [] = False"
| "is_prefix (x # xs) (y # ys) = (x = y \<and> is_prefix xs ys)"

fun includes_str :: "jsstring \<Rightarrow> jsstring \<Rightarrow> bool" where
  "includes_str [] n = (n = [])"
| "includes_str (c # cs) n = (is_prefix n (c # cs) \<or> includes_str cs n)"

text \<open>
  \<^verbatim>\<open>getFavourites().indexOf(countryName) !== -1\<close>. A stored number, \<^verbatim>\<open>true\<close>
  or object has no \<^verbatim>\<open>indexOf\<close>: the call throws a TypeError.
\<close>

definition isFavourite :: "localStorage \<Rightarrow> jsstring \<Rightarrow> js_error + bool" where
  "isFavourite ls countryName =
     (case getFavourites ls of
        JArr favs \<Rightarrow> Inr (indexOf favs (JStr countryName) \<noteq> -1)
      | JStr s \<Rightarrow> Inr (includes_str s countryName)
      | _ \<Rightarrow> Inl TypeError)"

text \<open>The favourite button, as far as \<^verbatim>\<open>toggleFavourite\<close> writes it.\<close>

record fav_button =
  innerHTML :: jsstring
  favourited :: bool
  aria_label :: jsstring
  title :: jsstring

text \<open>\<^verbatim>\<open>favs.splice(index, 1)\<close> for an index found by \<^verbatim>\<open>indexOf\<close>.\<close>

definition splice1 :: "json list \<Rightarrow> int \<Rightarrow> json list" where
  "splice1 favs index = take (nat index) favs @ drop (Suc (nat index)) favs"

text \<open>
  \<^verbatim>\<open>toggleFavourite(countryName, btn)\<close>. On a stored string \<^verbatim>\<open>indexOf\<close> works but
  \<^verbatim>\<open>splice\<close> and \<^verbatim>\<open>push\<close> do not exist; the TypeError leaves the function before
  the button or the storage is written.
\<close>

definition toggleFavourite ::
  "jsstring \<Rightarrow> fav_button \<Rightarrow> localStorage \<Rightarrow> js_error + (fav_button \<times> localStorage)" where
  "toggleFavourite countryName btn ls =
     (case getFavourites ls of
        JArr favs \<Rightarrow>
          (let index = indexOf favs (JStr countryName) in
           if index \<noteq> -1 then
             Inr (btn\<lparr>innerHTML := lit ''&#9825;'', favourited := False,
                       aria_label := lit ''Save '' @ countryName @ lit '' to favourites'',
                       title := lit ''Save to favourites''\<rparr>,
                  saveFavourites (JArr (splice1 favs index)) ls)
           else
             Inr (btn\<lparr>innerHTML := lit ''&#9829;'', favourited := True,
                       aria_label := lit ''Remove '' @ countryName @ lit '' from favourites'',
                       title := lit ''Remove from favourites''\<rparr>,
                  saveFavourites (JArr (favs @ [JStr countryName])) ls))
      | _ \<Rightarrow> Inl TypeError)"

text \<open>Two clicks on the button, one after the other.\<close>

definition toggle_twice ::
  "jsstring \<Rightarrow> fav_button \<Rightarrow> localStorage \<Rightarrow> js_error + (fav_button \<times> localStorage)" where
  "toggle_twice countryName btn ls =
     (case toggleFavourite countryName btn ls of
        Inl e \<Rightarrow> Inl e
      | Inr (btn', ls') \<Rightarrow> toggleFavourite countryName btn' ls')"

section \<open>Concrete runs\<close>

text \<open>A country object that has a name only.\<close>

definition named :: "jsstring \<Rightarrow> country" where
  "named n = no_fields\<lparr>name_common := Some n\<rparr>"

text \<open>
  A network on which the exact-match lookup of Italy is rejected, that of Morocco is
  answered with status 500 and every other lookup with one country of the name asked for.
\<close>

definition featured_net :: "jsstring \<Rightarrow> fetch_outcome" where
  "featured_net n =
     (if n = lit ''Italy'' then FetchRejected TypeError
      else if n = lit ''Morocco'' then FetchResponse 500 (JsonRejected SyntaxError)
      else FetchResponse 200 (JsonValue (Array [named n])))"

text \<open>
  The home page (search form with its map, feedback, spinner and grid) and the
  destinations page (its form, map, feedback, spinner and grid), each as the script
  finds it when loaded.
\<close>

definition home_page :: page where
  "home_page = loaded True False True False [''search-feedback''] [''search-spinner''] [''results-grid'']"


text \<open>The queries Japan and Italy, as code units.\<close>

definition japan :: jsstring where
  "japan = [74, 97, 112, 97, 110]"

definition italy :: jsstring where
  "italy = [73, 116, 97, 108, 121]"

text \<open>The request that a search for \<open>q\<close> on the home page puts in flight.\<close>

definition home_request :: "nat \<Rightarrow> jsstring \<Rightarrow> request" where
  "home_request c q =
     \<lparr>req_controller = c, req_query = q, req_feedbackId = ''search-feedback'',
      req_spinnerId = ''search-spinner'', req_surface = Home\<rparr>"


text \<open>A response with status 200 and one country named Japan.\<close>

definition japan_found :: transport where
  "japan_found = Http 200 (Some (Array [named japan]))"

text \<open>
  The city name spelt with U+0141 (L with stroke), U+00F3, d and U+017A (z with acute),
  and the text a, multiplication sign, b.
\<close>

definition lodz :: jsstring where
  "lodz = [0x141, 0xF3, 0x64, 0x17A]"

definition a_times_b :: jsstring where
  "a_times_b = [0x61, 0xD7, 0x62]"

text \<open>
  Japan with coordinates (36, 138) and Tokyo as its capital; a map as \<^verbatim>\<open>initMap\<close>
  creates it.
\<close>

definition japan_located :: country where
  "japan_located = (named japan)\<lparr>capital := Some [[84, 111, 107, 121, 111]], latlng := Some [36, 138]\<rparr>"

definition fresh_map :: leaflet_map where
  "fresh_map = \<lparr>layers = [], view = SetView 20 0 2\<rparr>"

text \<open>
  Japan as the API describes it: capital Tokyo, a population of 125 681 593, Japanese as
  its language, the yen as its currency, coordinates (36, 138). The strings are given by
  their code units; the language code is \<open>jpn\<close>, the currency code \<open>JPY\<close>.
\<close>

definition japan_country :: country where
  "japan_country =
     \<lparr>name_common = Some japan, flags_svg = None, flags_png = None,
      region = Some [65, 115, 105, 97], subregion = None,
      population = Some 125681593,
      capital = Some [[84, 111, 107, 121, 111]],
      currencies = Some [([74, 80, 89], Some [74, 97, 112, 97, 110, 101, 115, 101, 32, 121, 101, 110])],
      languages = Some [([106, 112, 110], [74, 97, 112, 97, 110, 101, 115, 101])],
      latlng = Some [36, 138]\<rparr>"

section \<open>Strings\<close>

lemma lit_eq_iff [simp]: "lit a = lit b \<longleftrightarrow> a = b"
  unfolding lit_def using inj_of_char [where ?'a = nat] by (simp add: inj_map_eq_map)

lemma lit_Nil [simp]: "lit [] = []"
  by (simp add: lit_def)

lemma lit_eq_Nil_iff [simp]: "lit a = [] \<longleftrightarrow> a = []"
  by (simp add: lit_def)

lemma trim_id: "xs \<noteq> [] \<Longrightarrow> \<not> is_space (hd xs) \<Longrightarrow> \<not> is_space (last xs) \<Longrightarrow> trim xs = xs"
proof -
  assume a: "xs \<noteq> []" "\<not> is_space (hd xs)" "\<not> is_space (last xs)"
  then have 1: "dropWhile is_space xs = xs" by (cases xs) simp_all
  from a have 2: "dropWhile is_space (rev xs) = rev xs"
    by (cases "rev xs") (simp_all add: last_rev[symmetric] hd_rev)
  show ?thesis by (simp add: trim_def 1 2)
qed

lemma not_space_letters [simp]:
  "\<not> is_space 74" "\<not> is_space 110" "\<not> is_space 73" "\<not> is_space 121" "\<not> is_space 97"
  by (simp_all add: is_space_def)

lemma trim_japan [simp]: "trim japan = japan"
  by (simp add: trim_def japan_def)

lemma trim_italy [simp]: "trim italy = italy"
  by (simp add: trim_def italy_def)

lemma valid_japan [simp]: "valid (validateSearchInput japan)"
  by (simp add: validateSearchInput_def Let_def) (simp add: japan_def format_test_def format_char_def)

lemma valid_italy [simp]: "valid (validateSearchInput italy)"
  by (simp add: validateSearchInput_def Let_def) (simp add: italy_def format_test_def format_char_def)

lemma well_formed_japan [simp]: "well_formed japan" by (simp add: japan_def)
lemma well_formed_italy [simp]: "well_formed italy" by (simp add: italy_def)


section \<open>Country cards\<close>

subsection \<open>Rounding to a double\<close>

lemma bit_length_bounds:
  "0 < n \<Longrightarrow> 2 ^ (bit_length n - 1) \<le> n \<and> n < 2 ^ bit_length n"
proof (induction n rule: bit_length.induct)
  case (1 n)
  show ?case
  proof (cases "n div 2 = 0")
    case True
    with 1 have "n = 1" by (simp add: div_eq_0_iff) 
    then show ?thesis by (simp add: bit_length.simps[of "Suc 0"] bit_length.simps[of 0])
  next
    case False
    then have pos: "0 < n div 2" by simp
    from 1 have n0: "n \<noteq> 0" by simp
    from "1.IH"[OF n0 pos] have ih: "2 ^ (bit_length (n div 2) - 1) \<le> n div 2" "n div 2 < 2 ^ bit_length (n div 2)"
      by simp_all
    have bl: "bit_length n = Suc (bit_length (n div 2))" using n0 by (simp add: bit_length.simps[of n])
    have bpos: "0 < bit_length (n div 2)" using pos by (simp add: bit_length.simps[of "n div 2"])
    then obtain j where j: "bit_length (n div 2) = Suc j" by (cases "bit_length (n div 2)") simp_all
    from ih j have "2 ^ j \<le> n div 2" "n div 2 < 2 * 2 ^ j" by simp_all
    then have "2 * 2 ^ j \<le> n" "n < 2 * (2 * 2 ^ j)" by arith+
    then have "2 ^ Suc j \<le> n" "n < 2 ^ Suc (Suc j)" by simp_all
    then show ?thesis using bl j by simp
  qed
qed

lemma round_even_error: "\<bar>of_int (round_even y) - y\<bar> \<le> 1 / 2"
proof -
  have "of_int \<lfloor>y\<rfloor> \<le> y" "y < of_int \<lfloor>y\<rfloor> + 1" by linarith+
  then show ?thesis
    by (auto simp: round_even_def Let_def abs_le_iff) 
qed

lemma round_even_of_int: "round_even (of_int m) = m"
  by (simp add: round_even_def)


lemma bit_length_rat:
  assumes "1 \<le> (r::rat)"
  shows "1 \<le> bit_length (nat \<lfloor>r\<rfloor>) \<and>
         2 ^ (bit_length (nat \<lfloor>r\<rfloor>) - 1) \<le> r \<and> r < 2 ^ bit_length (nat \<lfloor>r\<rfloor>)"
proof -
  let ?n = "nat \<lfloor>r\<rfloor>"
  from assms have fl: "1 \<le> \<lfloor>r\<rfloor>" by (simp add: le_floor_iff)
  then have pos: "0 < ?n" by simp
  from bit_length_bounds[OF pos] have b: "2 ^ (bit_length ?n - 1) \<le> ?n" "?n < 2 ^ bit_length ?n"
    by simp_all
  have k1: "1 \<le> bit_length ?n" using pos by (simp add: bit_length.simps[of ?n])
  have nn: "int ?n = \<lfloor>r\<rfloor>" using fl by simp
  have "int (2 ^ (bit_length ?n - 1)) \<le> int ?n" using b(1) by (simp only: of_nat_le_iff)
  then have "(2::int) ^ (bit_length ?n - 1) \<le> \<lfloor>r\<rfloor>" unfolding nn by simp
  then have lo: "2 ^ (bit_length ?n - 1) \<le> r" by (simp add: le_floor_iff)
  have "int ?n < int (2 ^ bit_length ?n)" using b(2) by (simp only: of_nat_less_iff)
  then have "\<lfloor>r\<rfloor> < (2::int) ^ bit_length ?n" unfolding nn by simp
  then have hi: "r < 2 ^ bit_length ?n" by (simp add: floor_less_iff)
  show ?thesis using k1 lo hi by simp
qed

lemma to_double_error:
  assumes "1 \<le> r" and "r < 2 ^ 53"
  shows "\<bar>to_double r - r\<bar> \<le> r / 2 ^ 53"
proof -
  let ?k = "bit_length (nat \<lfloor>r\<rfloor>)"
  from bit_length_rat[OF assms(1)] have k1: "1 \<le> ?k" and lo: "2 ^ (?k - 1) \<le> r"
    and hi: "r < 2 ^ ?k" by simp_all
  have k53: "?k \<le> 53"
  proof (rule ccontr)
    assume "\<not> ?k \<le> 53"
    then have "53 \<le> ?k - 1" by simp
    then have "(2::rat) ^ 53 \<le> 2 ^ (?k - 1)" by (rule power_increasing) simp
    with lo assms(2) show False by simp
  qed
  let ?s = "(2::rat) ^ (53 - ?k)"
  have spos: "0 < ?s" by simp
  have td: "to_double r = of_int (round_even (r * ?s)) / ?s"
    using k53 by (simp add: to_double_def Let_def)
  have "\<bar>of_int (round_even (r * ?s)) - r * ?s\<bar> \<le> 1 / 2" by (rule round_even_error)
  then have "\<bar>of_int (round_even (r * ?s)) / ?s - r\<bar> \<le> 1 / 2 / ?s"
    using spos by (simp add: abs_le_iff field_simps)
  moreover have "1 / 2 / ?s \<le> r / 2 ^ 53"
  proof -
    have "(2::rat) ^ 53 = 2 ^ (53 - ?k) * 2 ^ (?k - 1) * 2"
      using k1 k53 by (simp add: power_add[symmetric] flip: power_Suc2)
    then have "1 / 2 / ?s = 2 ^ (?k - 1) / 2 ^ 53" by (simp add: field_simps)
    also have "\<dots> \<le> r / 2 ^ 53" using lo by (simp add: divide_right_mono)
    finally show ?thesis .
  qed
  ultimately show ?thesis using td by simp
qed


lemma to_double_half:
  assumes "1 \<le> r" and "r < 2 ^ 52" and "2 * r = of_int z"
  shows "to_double r = r"
proof -
  let ?k = "bit_length (nat \<lfloor>r\<rfloor>)"
  from bit_length_rat[OF assms(1)] have k1: "1 \<le> ?k" and lo: "2 ^ (?k - 1) \<le> r" by simp_all
  have k52: "?k \<le> 52"
  proof (rule ccontr)
    assume "\<not> ?k \<le> 52"
    then have "52 \<le> ?k - 1" by simp
    then have "(2::rat) ^ 52 \<le> 2 ^ (?k - 1)" by (rule power_increasing) simp
    with lo assms(2) show False by simp
  qed
  then have e: "53 - ?k = Suc (52 - ?k)" by simp
  have "r * 2 ^ (53 - ?k) = of_int (z * 2 ^ (52 - ?k))"
    unfolding e using assms(3) by (simp add: mult.assoc mult.left_commute)
  then have "round_even (r * 2 ^ (53 - ?k)) = z * 2 ^ (52 - ?k)"
    by (simp only: round_even_of_int)
  moreover have "to_double r = of_int (round_even (r * 2 ^ (53 - ?k))) / 2 ^ (53 - ?k)"
    using k52 by (simp add: to_double_def Let_def)
  ultimately have "to_double r = of_int (z * 2 ^ (52 - ?k)) / 2 ^ (53 - ?k)" by simp
  also have "\<dots> = (2 * r) * 2 ^ (52 - ?k) / 2 ^ (53 - ?k)" using assms(3) by simp
  also have "\<dots> = r" unfolding e by simp
  finally show ?thesis .
qed

lemma thousands_rounding:
  assumes "1000 \<le> p" and "p < 1000000"
  shows "nat \<lfloor>js_div p 1000 + 1 / 2\<rfloor> = (p + 500) div 1000"
proof -
  let ?y = "of_nat p / 1000 :: rat"
  let ?N = "(p + 500) div 1000"
  let ?rho = "(p + 500) mod 1000"
  have y1: "1 \<le> ?y" using assms(1) by simp
  have y2: "?y < 1000" using assms(2) by simp
  have split: "of_nat p + 500 = 1000 * (of_nat ?N :: rat) + of_nat ?rho"
  proof -
    have "(of_nat p :: rat) + 500 = of_nat (p + 500)" by simp
    also have "\<dots> = of_nat (1000 * ?N + ?rho)" by (simp only: mult_div_mod_eq)
    also have "\<dots> = 1000 * of_nat ?N + of_nat ?rho"
      by (simp only: of_nat_add of_nat_mult of_nat_numeral)
    finally show ?thesis .
  qed
  have yN: "?y + 1 / 2 = of_nat ?N + of_nat ?rho / 1000"
    using split by (simp add: field_simps)
  have fl: "\<lfloor>to_double ?y + 1 / 2\<rfloor> = int ?N"
  proof (cases "?rho = 0")
    case True
    with yN have h: "?y + 1 / 2 = of_nat ?N" by simp
    then have "2 * ?y = of_int (2 * int ?N - 1)" by simp
    then have td: "to_double ?y = ?y"
      using y1 y2 by (intro to_double_half[where z = "2 * int ?N - 1"]) simp_all
    have "to_double ?y + 1 / 2 = of_int (int ?N)" unfolding td h by simp
    then show ?thesis by (simp only: floor_of_int)
  next
    case False
    then have r1: "(1::rat) \<le> of_nat ?rho" by simp
    have "?rho < 1000" by simp
    then have "?rho \<le> 999" by simp
    then have r2: "(of_nat ?rho :: rat) \<le> 999" by (metis of_nat_le_iff of_nat_numeral)
    have "\<bar>to_double ?y - ?y\<bar> \<le> ?y / 2 ^ 53"
      using y1 y2 by (intro to_double_error) simp_all
    also have "\<dots> \<le> 1 / 2000" using y2 by simp
    finally have err: "\<bar>to_double ?y - ?y\<bar> \<le> 1 / 2000" .
    from err have e2: "to_double ?y - ?y \<le> 1 / 2000" "?y - to_double ?y \<le> 1 / 2000"
      by linarith+
    have "of_nat ?N \<le> to_double ?y + 1 / 2" "to_double ?y + 1 / 2 < of_nat ?N + 1"
      using e2 yN r1 r2 by linarith+
    then have "of_int (int ?N) \<le> to_double ?y + 1 / 2"
      "to_double ?y + 1 / 2 < of_int (int ?N) + 1"
      by (simp_all only: of_int_of_nat_eq)
    then show ?thesis by (rule floor_unique)
  qed
  show ?thesis by (simp add: js_div_def fl)
qed

lemma millions_rounding:
  assumes "1000000 \<le> p" and "p < 2 ^ 53"
  shows "\<bar>of_nat (nat \<lfloor>js_div p 1000000 * 10 + 1 / 2\<rfloor>) / 10 - of_nat p / 1000000\<bar> \<le> (1 / 20 :: rat)"
proof -
  let ?y = "of_nat p / 1000000 :: rat"
  let ?q = "to_double ?y"
  let ?z = "\<lfloor>?q * 10 + 1 / 2\<rfloor>"
  have y1: "1 \<le> ?y" using assms(1) by simp
  have pr: "(of_nat p :: rat) < 2 ^ 53"
    using assms(2) by (metis of_nat_less_iff of_nat_numeral of_nat_power)
  then have y2: "?y < 2 ^ 53" by simp
  have "\<bar>?q - ?y\<bar> \<le> ?y / 2 ^ 53" using y1 y2 by (rule to_double_error)
  moreover have "?y / 2 ^ 53 < 1 / 1000000" using pr by simp
  ultimately have e: "?q - ?y < 1 / 1000000" "?y - ?q < 1 / 1000000" by linarith+
  have f: "of_int ?z \<le> ?q * 10 + 1 / 2" "?q * 10 + 1 / 2 < of_int ?z + 1" by linarith+
  have qpos: "0 < ?q" using e(2) y1 by linarith
  then have zpos: "0 \<le> ?z" by simp
  have py: "of_int (int p) = ?y * 1000000" by simp
  have up: "?y * 10 \<le> of_int ?z + 1 / 2"
  proof (rule ccontr)
    assume "\<not> ?y * 10 \<le> of_int ?z + 1 / 2"
    then have "(of_int (100000 * ?z + 50000) :: rat) < of_int (int p)"
      unfolding py by simp
    then have "100000 * ?z + 50000 < int p" by (simp only: of_int_less_iff)
    then have "100000 * ?z + 50001 \<le> int p" by simp
    then have "(of_int (100000 * ?z + 50001) :: rat) \<le> of_int (int p)" by (simp only: of_int_le_iff)
    then have "of_int ?z + 1 / 2 + 1 / 100000 \<le> ?y * 10" unfolding py by simp
    with e(2) f(2) show False by linarith
  qed
  have lo: "of_int ?z - 1 / 2 \<le> ?y * 10"
  proof (rule ccontr)
    assume "\<not> of_int ?z - 1 / 2 \<le> ?y * 10"
    then have "(of_int (int p) :: rat) < of_int (100000 * ?z - 50000)"
      unfolding py by simp
    then have "int p < 100000 * ?z - 50000" by (simp only: of_int_less_iff)
    then have "int p \<le> 100000 * ?z - 50001" by simp
    then have "(of_int (int p) :: rat) \<le> of_int (100000 * ?z - 50001)" by (simp only: of_int_le_iff)
    then have "?y * 10 \<le> of_int ?z - 1 / 2 - 1 / 100000" unfolding py by simp
    with e(1) f(1) show False by linarith
  qed
  have n: "(of_nat (nat ?z) :: rat) = of_int ?z" using zpos by simp
  have jd: "js_div p 1000000 = ?q" by (simp add: js_div_def)
  have "of_int ?z / 10 - ?y \<le> 1 / 20" "- (of_int ?z / 10 - ?y) \<le> 1 / 20"
    using up lo by linarith+
  then have "\<bar>of_int ?z / 10 - ?y\<bar> \<le> 1 / 20" by (simp only: abs_le_iff)
  then show ?thesis by (simp only: jd n)
qed

lemma digits_small: "d < 10 \<Longrightarrow> digits d = [48 + d]"
  by (simp add: digits.simps)

lemma toFixed_0: "toFixed x 0 = digits (nat \<lfloor>x + 1 / 2\<rfloor>)"
  by (simp add: toFixed_def)

lemma toFixed_1:
  "toFixed x 1 = digits (nat \<lfloor>x * 10 + 1 / 2\<rfloor> div 10) @ lit ''.'' @
                 digits (nat \<lfloor>x * 10 + 1 / 2\<rfloor> mod 10)"
  by (simp add: toFixed_def Let_def digits_small)


subsection \<open>The fields of a card\<close>

lemma population_cases:
  "format_population None = lit ''N/A''"
  "format_population (Some 0) = lit ''N/A''"
  "0 < p \<Longrightarrow> p < 1000 \<Longrightarrow> format_population (Some p) = digits p"
  "1000 \<le> p \<Longrightarrow> p < 1000000 \<Longrightarrow>
     format_population (Some p) = digits ((p + 500) div 1000) @ lit ''K''"
  by (simp_all add: format_population_def toFixed_0 thousands_rounding)

lemma population_millions:
  assumes "1000000 \<le> p" and "p < 2 ^ 53"
  shows "\<exists>n. format_population (Some p) = digits (n div 10) @ lit ''.'' @ digits (n mod 10) @ lit ''M'' \<and>
             \<bar>of_nat n / 10 - of_nat p / 1000000\<bar> \<le> (1 / 20 :: rat)"
proof -
  let ?n = "nat \<lfloor>js_div p 1000000 * 10 + 1 / 2\<rfloor>"
  have "format_population (Some p) =
          digits (?n div 10) @ lit ''.'' @ digits (?n mod 10) @ lit ''M''"
    using assms(1) toFixed_1[of "js_div p 1000000"] by (simp add: format_population_def)
  moreover have "\<bar>of_nat ?n / 10 - of_nat p / 1000000\<bar> \<le> (1 / 20 :: rat)"
    using assms by (rule millions_rounding)
  ultimately show ?thesis by blast
qed

text \<open>
  Claim C8, as the code has it. The population badge is N/A when the population is
  missing or zero; the number itself from 1 to 999; the number of thousands, rounded to
  the nearest integer (halves up), with K from 1000 on; and from a million on a number
  with one decimal and M that is a nearest tenth of the millions: \<open>n / 10\<close> with
  \<open>n\<close> within one half of the population over 100 000. The capital is the first
  entry of the list, or N/A for a missing or empty list. The languages are the first
  three names, joined by a comma and a space. Latitude and longitude are present
  together, exactly when the coordinate list has two entries. The name is Unknown when
  missing or empty.
\<close>

theorem createCountryCard_fields:
  "(population c = None \<or> population c = Some 0 \<longrightarrow>
      card_population (createCountryCard c) = lit ''N/A'') \<and>
   (population c = Some p \<and> 0 < p \<and> p < 1000 \<longrightarrow>
      card_population (createCountryCard c) = digits p) \<and>
   (population c = Some p \<and> 1000 \<le> p \<and> p < 1000000 \<longrightarrow>
      card_population (createCountryCard c) = digits ((p + 500) div 1000) @ lit ''K'') \<and>
   (population c = Some p \<and> 1000000 \<le> p \<and> p < 2 ^ 53 \<longrightarrow>
      (\<exists>n. card_population (createCountryCard c) =
             digits (n div 10) @ lit ''.'' @ digits (n mod 10) @ lit ''M'' \<and>
           \<bar>of_nat n / 10 - of_nat p / 1000000\<bar> \<le> (1 / 20 :: rat))) \<and>
   (capital c = None \<or> capital c = Some [] \<longrightarrow> card_capital (createCountryCard c) = lit ''N/A'') \<and>
   (capital c = Some (x # xs) \<longrightarrow> card_capital (createCountryCard c) = x) \<and>
   (languages c = Some ls \<longrightarrow>
      card_languages (createCountryCard c) = join_comma (take 3 (map snd ls))) \<and>
   (latlng c = Some (la # lo # rest) \<longrightarrow>
      card_lat (createCountryCard c) = Some la \<and> card_lng (createCountryCard c) = Some lo) \<and>
   ((\<forall>la lo rest. latlng c \<noteq> Some (la # lo # rest)) \<longrightarrow>
      card_lat (createCountryCard c) = None \<and> card_lng (createCountryCard c) = None) \<and>
   (name_common c = None \<or> name_common c = Some [] \<longrightarrow>
      card_name (createCountryCard c) = lit ''Unknown'') \<and>
   (name_common c = Some (y # ys) \<longrightarrow> card_name (createCountryCard c) = y # ys)"
proof -
  have pop: "card_population (createCountryCard c) = format_population (population c)"
    by (simp add: createCountryCard_def)
  have 1: "population c = None \<or> population c = Some 0 \<longrightarrow>
      card_population (createCountryCard c) = lit ''N/A''"
    unfolding pop using population_cases(1,2) by auto
  have 2: "population c = Some p \<and> 0 < p \<and> p < 1000 \<longrightarrow>
      card_population (createCountryCard c) = digits p"
    unfolding pop using population_cases(3) by auto
  have 3: "population c = Some p \<and> 1000 \<le> p \<and> p < 1000000 \<longrightarrow>
      card_population (createCountryCard c) = digits ((p + 500) div 1000) @ lit ''K''"
    unfolding pop using population_cases(4) by auto
  have 4: "population c = Some p \<and> 1000000 \<le> p \<and> p < 2 ^ 53 \<longrightarrow>
      (\<exists>n. card_population (createCountryCard c) =
             digits (n div 10) @ lit ''.'' @ digits (n mod 10) @ lit ''M'' \<and>
           \<bar>of_nat n / 10 - of_nat p / 1000000\<bar> \<le> (1 / 20 :: rat))"
    unfolding pop using population_millions[of p] by auto
  have 5: "capital c = None \<or> capital c = Some [] \<longrightarrow> card_capital (createCountryCard c) = lit ''N/A''"
    "capital c = Some (x # xs) \<longrightarrow> card_capital (createCountryCard c) = x"
    by (auto simp: createCountryCard_def country_capital_def)
  have 6: "languages c = Some ls \<longrightarrow>
      card_languages (createCountryCard c) = join_comma (take 3 (map snd ls))"
    by (simp add: createCountryCard_def)
  have 7: "latlng c = Some (la # lo # rest) \<longrightarrow>
      card_lat (createCountryCard c) = Some la \<and> card_lng (createCountryCard c) = Some lo"
    by (simp add: createCountryCard_def)
  have 8: "(\<forall>la lo rest. latlng c \<noteq> Some (la # lo # rest)) \<longrightarrow>
      card_lat (createCountryCard c) = None \<and> card_lng (createCountryCard c) = None"
    by (auto simp: createCountryCard_def split: option.splits list.splits)
  have 9: "name_common c = None \<or> name_common c = Some [] \<longrightarrow>
      card_name (createCountryCard c) = lit ''Unknown''"
    "name_common c = Some (y # ys) \<longrightarrow> card_name (createCountryCard c) = y # ys"
    by (auto simp: createCountryCard_def country_name_def or_default_def)
  show ?thesis using 1 2 3 4 5 6 7 8 9 by blast
qed

theorem createCountryCard_fields_witness:
  "population japan_country = Some 125681593 \<and> (1000000::nat) \<le> 125681593 \<and>
   (125681593::nat) < 2 ^ 53 \<and>
   card_population (createCountryCard japan_country) = lit ''125.7M'' \<and>
   capital japan_country = Some [[84, 111, 107, 121, 111]] \<and>
   card_capital (createCountryCard japan_country) = [84, 111, 107, 121, 111] \<and>
   languages japan_country = Some [([106, 112, 110], [74, 97, 112, 97, 110, 101, 115, 101])] \<and>
   card_languages (createCountryCard japan_country) = [74, 97, 112, 97, 110, 101, 115, 101] \<and>
   latlng japan_country = Some [36, 138] \<and>
   card_lat (createCountryCard japan_country) = Some 36 \<and>
   card_lng (createCountryCard japan_country) = Some 138 \<and>
   name_common japan_country = Some japan \<and>
   card_name (createCountryCard japan_country) = japan \<and>
   population no_fields = None \<and> card_population (createCountryCard no_fields) = lit ''N/A'' \<and>
   capital no_fields = None \<and> card_capital (createCountryCard no_fields) = lit ''N/A'' \<and>
   latlng no_fields = None \<and> card_lat (createCountryCard no_fields) = None \<and>
   card_lng (createCountryCard no_fields) = None \<and>
   name_common no_fields = None \<and> card_name (createCountryCard no_fields) = lit ''Unknown'' \<and>
   card_population (createCountryCard (no_fields\<lparr>population := Some 999\<rparr>)) = lit ''999'' \<and>
   card_population (createCountryCard (no_fields\<lparr>population := Some 1500\<rparr>)) = lit ''2K''"
proof -
  note j = createCountryCard_fields[of japan_country 125681593 "[84, 111, 107, 121, 111]" "[]"
      "[([106, 112, 110], [74, 97, 112, 97, 110, 101, 115, 101])]" 36 138 "[]" 74 "[97, 112, 97, 110]"]
  have pj: "population japan_country = Some 125681593" by (simp add: japan_country_def)
  from j pj obtain n where
    s: "card_population (createCountryCard japan_country) =
          digits (n div 10) @ lit ''.'' @ digits (n mod 10) @ lit ''M''"
    and b: "\<bar>of_nat n / 10 - of_nat 125681593 / 1000000\<bar> \<le> (1 / 20 :: rat)"
    by auto
  have b': "\<bar>(of_nat n :: rat) / 10 - 125681593 / 1000000\<bar> \<le> 1 / 20" using b by simp
  then have "(of_nat n :: rat) < 1258" "(1256 :: rat) < of_nat n" by linarith+
  then have "(of_nat n :: rat) < of_nat 1258" "(of_nat 1256 :: rat) < of_nat n" by simp_all
  then have "n < 1258" "1256 < n" by (simp_all only: of_nat_less_iff)
  then have n: "n = 1257" by simp
  have pop: "card_population (createCountryCard japan_country) = lit ''125.7M''"
    unfolding s n by (simp add: digits.simps lit_def)
  note e = createCountryCard_fields[of no_fields 0 "[]" "[]" "[]" 0 0 "[]" 0 "[]"]
  note a = createCountryCard_fields[of "no_fields\<lparr>population := Some 999\<rparr>" 999 "[]" "[]" "[]" 0 0 "[]" 0 "[]"]
  note k = createCountryCard_fields[of "no_fields\<lparr>population := Some 1500\<rparr>" 1500 "[]" "[]" "[]" 0 0 "[]" 0 "[]"]
  have rest: "card_capital (createCountryCard japan_country) = [84, 111, 107, 121, 111]"
    "card_languages (createCountryCard japan_country) = [74, 97, 112, 97, 110, 101, 115, 101]"
    "card_lat (createCountryCard japan_country) = Some 36"
    "card_lng (createCountryCard japan_country) = Some 138"
    "card_name (createCountryCard japan_country) = japan"
    using j by (simp_all add: japan_country_def japan_def)
  have nf: "card_population (createCountryCard no_fields) = lit ''N/A''"
    "card_capital (createCountryCard no_fields) = lit ''N/A''"
    "card_lat (createCountryCard no_fields) = None"
    "card_lng (createCountryCard no_fields) = None"
    "card_name (createCountryCard no_fields) = lit ''Unknown''"
    using e by (simp_all add: no_fields_def)
  have sm: "card_population (createCountryCard (no_fields\<lparr>population := Some 999\<rparr>)) = lit ''999''"
    using a by (simp add: no_fields_def digits.simps lit_def)
  have th: "card_population (createCountryCard (no_fields\<lparr>population := Some 1500\<rparr>)) = lit ''2K''"
    using k by (simp add: no_fields_def digits.simps lit_def)
  show ?thesis
    using pop rest nf sm th
    by (simp add: japan_country_def no_fields_def)
qed

text \<open>
  Claim C8 as stated fails for a population of zero: the card shows N/A, not the literal
  integer 0.
\<close>

theorem createCountryCard_fields_counterexample:
  "population (no_fields\<lparr>population := Some 0\<rparr>) = Some 0 \<and>
   card_population (createCountryCard (no_fields\<lparr>population := Some 0\<rparr>)) = lit ''N/A'' \<and>
   digits 0 = [48] \<and>
   card_population (createCountryCard (no_fields\<lparr>population := Some 0\<rparr>)) \<noteq> digits 0"
  by (simp add: createCountryCard_def format_population_def no_fields_def digits.simps lit_def)

section \<open>Displaying results\<close>

lemma remove_markers_self: "remove_markers ms (ms @ rest) = rest"
  by (induction ms) simp_all

lemma display_loop_map:
  "display_loop cs grid (Some mp) ms =
     (grid @ map createCountryCard cs,
      Some (mp\<lparr>layers := layers mp @ map country_marker (filter has_coordinates cs)\<rparr>),
      ms @ map country_marker (filter has_coordinates cs))"
  by (induction cs arbitrary: grid mp ms) simp_all

lemma display_loop_no_map:
  "display_loop cs grid None ms = (grid @ map createCountryCard cs, None, ms)"
  by (induction cs arbitrary: grid) simp_all

lemma displayResults_shown:
  assumes "shown_markers mapInstance = markerArray"
  shows "shown_markers (fst (snd (displayResults countries grid mapInstance markerArray))) =
         snd (snd (displayResults countries grid mapInstance markerArray))"
proof (cases grid)
  case None
  then show ?thesis using assms by (simp add: displayResults_def)
next
  case (Some g)
  show ?thesis
  proof (cases mapInstance)
    case None
    then show ?thesis using Some
      by (simp add: displayResults_def display_loop_no_map shown_markers_def)
  next
    case (Some mp)
    with assms have "layers mp = markerArray" by (simp add: shown_markers_def)
    then show ?thesis using Some \<open>grid = Some g\<close> remove_markers_self[of markerArray "[]"]
      by (simp add: displayResults_def display_loop_map shown_markers_def Let_def)
  qed
qed

lemma displayResults_without_map:
  "displayResults countries (Some g) None markerArray =
     (Some (map createCountryCard countries), None, [])"
  by (simp add: displayResults_def display_loop_no_map)

lemma displayResults_without_grid:
  "displayResults countries None mapInstance markerArray = (None, mapInstance, markerArray)"
  by (simp add: displayResults_def)

text \<open>
  Claim C6. On a surface that has its grid element and its map, with the map showing the
  markers of the marker array (as it does in every state the document reaches, see
  \<open>markers_inv\<close>), \<^verbatim>\<open>displayResults\<close> replaces the cards by one card per
  country, in order, and the markers by one marker per country that has coordinates, on
  the map and in the array alike: \<open>K\<close> markers for \<open>K\<close> such countries out
  of the \<open>N\<close> given. With \<open>K \<ge> 1\<close> the map is fitted to the bounds of exactly these
  markers, padded by 0.3; with \<open>K = 0\<close> its viewport stays as it was.
\<close>

theorem displayResults_markers:
  assumes "layers mp = markerArray"
  shows "displayResults countries (Some g) (Some mp) markerArray =
           (Some (map createCountryCard countries),
            Some \<lparr>layers = map country_marker (filter has_coordinates countries),
                  view = (if 1 \<le> length (filter has_coordinates countries)
                          then FitBounds (map country_marker (filter has_coordinates countries)) (3 / 10)
                          else view mp)\<rparr>,
            map country_marker (filter has_coordinates countries)) \<and>
         length (map country_marker (filter has_coordinates countries)) =
           length (filter has_coordinates countries) \<and>
         length (filter has_coordinates countries) \<le> length countries"
  using assms remove_markers_self[of markerArray "[]"]
  by (auto simp: displayResults_def display_loop_map Let_def Suc_le_eq)

theorem displayResults_markers_witness:
  "layers fresh_map = [] \<and>
   displayResults [japan_located, named italy] (Some []) (Some fresh_map) [] =
     (Some [createCountryCard japan_located, createCountryCard (named italy)],
      Some \<lparr>layers = [country_marker japan_located],
            view = FitBounds [country_marker japan_located] (3 / 10)\<rparr>,
      [country_marker japan_located]) \<and>
   displayResults [named italy] (Some []) (Some fresh_map) [] =
     (Some [createCountryCard (named italy)], Some fresh_map, [])"
  using displayResults_markers[of fresh_map "[]" "[japan_located, named italy]" "[]"]
    displayResults_markers[of fresh_map "[]" "[named italy]" "[]"]
  by (simp add: has_coordinates_def japan_located_def named_def no_fields_def fresh_map_def)

section \<open>Searching\<close>

subsection \<open>What each part of the script leaves alone\<close>

lemma viewState_frame [simp]:
  "viewState sf (p\<lparr>pending := x1\<rparr>) = viewState sf p"
  "viewState sf (p\<lparr>spinners := x2\<rparr>) = viewState sf p"
  "viewState sf (p\<lparr>feedbacks := x3\<rparr>) = viewState sf p"
  "viewState sf (p\<lparr>hide_timers := x4\<rparr>) = viewState sf p"
  "viewState sf (p\<lparr>currentAbortController := x5\<rparr>) = viewState sf p"
  "viewState sf (p\<lparr>aborted := x6\<rparr>) = viewState sf p"
  "viewState sf (p\<lparr>controllers := x7\<rparr>) = viewState sf p"
  "viewState sf (p\<lparr>fetched := x8\<rparr>) = viewState sf p"
  "viewState sf (p\<lparr>results_section := x9\<rparr>) = viewState sf p"
  "viewState sf (p\<lparr>results_title := x10\<rparr>) = viewState sf p"
  "viewState sf (p\<lparr>results_count := x11\<rparr>) = viewState sf p"
  "viewState sf (p\<lparr>map_container := x12\<rparr>) = viewState sf p"
  by (cases sf; simp)+

lemma viewState_initMap [simp]:
  "mainMap p = None \<Longrightarrow> viewState sf (p\<lparr>mainMap := initMap b\<rparr>) = viewState sf p"
  by (cases sf) (simp_all add: initMap_def shown_markers_def)

declare viewState.simps [simp del]

lemma viewState_toggleSpinner [simp]: "viewState sf (toggleSpinner i b p) = viewState sf p"
  by (simp add: toggleSpinner_def split: option.splits)

lemma viewState_showFeedback [simp]: "viewState sf (showFeedback i m ty p) = viewState sf p"
  by (simp add: showFeedback_def split: option.splits)

lemma viewState_searchCountries_start [simp]:
  "viewState sf (searchCountries_start q f s sf' p) = viewState sf p"
  by (simp add: searchCountries_start_def Let_def)

lemma viewState_step_submit: "viewState sf (step (submit sf' q) p) = viewState sf p"
  by (cases sf') (simp_all add: searchForm_submit_def destSearchForm_submit_def Let_def)

lemma toggleSpinner_fields [simp]:
  "pending (toggleSpinner i b p) = pending p"
  "aborted (toggleSpinner i b p) = aborted p"
  "currentAbortController (toggleSpinner i b p) = currentAbortController p"
  "controllers (toggleSpinner i b p) = controllers p"
  "feedbacks (toggleSpinner i b p) = feedbacks p"
  "hide_timers (toggleSpinner i b p) = hide_timers p"
  "fetched (toggleSpinner i b p) = fetched p"
  by (simp_all add: toggleSpinner_def split: option.splits)

lemma showFeedback_fields [simp]:
  "pending (showFeedback i m ty p) = pending p"
  "aborted (showFeedback i m ty p) = aborted p"
  "currentAbortController (showFeedback i m ty p) = currentAbortController p"
  "controllers (showFeedback i m ty p) = controllers p"
  "spinners (showFeedback i m ty p) = spinners p"
  "fetched (showFeedback i m ty p) = fetched p"
  by (simp_all add: showFeedback_def split: option.splits)

lemma display_home_fields [simp]:
  "pending (display_home cs p) = pending p"
  "aborted (display_home cs p) = aborted p"
  "currentAbortController (display_home cs p) = currentAbortController p"
  "controllers (display_home cs p) = controllers p"
  "spinners (display_home cs p) = spinners p"
  by (simp_all add: display_home_def Let_def split: prod.splits)

lemma display_dest_fields [simp]:
  "pending (display_dest cs p) = pending p"
  "aborted (display_dest cs p) = aborted p"
  "currentAbortController (display_dest cs p) = currentAbortController p"
  "controllers (display_dest cs p) = controllers p"
  "spinners (display_dest cs p) = spinners p"
  by (simp_all add: display_dest_def Let_def split: prod.splits)

lemma resume_fields [simp]:
  "pending (searchForm_resume q cs p) = pending p"
  "aborted (searchForm_resume q cs p) = aborted p"
  "currentAbortController (searchForm_resume q cs p) = currentAbortController p"
  "controllers (searchForm_resume q cs p) = controllers p"
  "spinners (searchForm_resume q cs p) = spinners p"
  "pending (destSearchForm_resume cs p) = pending p"
  "aborted (destSearchForm_resume cs p) = aborted p"
  "currentAbortController (destSearchForm_resume cs p) = currentAbortController p"
  "controllers (destSearchForm_resume cs p) = controllers p"
  "spinners (destSearchForm_resume cs p) = spinners p"
  by (simp_all add: searchForm_resume_def destSearchForm_resume_def Let_def)

lemma settle_fields:
  "aborted (settle c t p) = aborted p"
  "currentAbortController (settle c t p) = currentAbortController p"
  "controllers (settle c t p) = controllers p"
  "pending (settle c t p) =
     (case in_flight p c of None \<Rightarrow> pending p
      | Some r \<Rightarrow> filter (\<lambda>r'. req_controller r' \<noteq> c) (pending p))"
  by (simp_all add: settle_def searchCountries_settle_def Let_def
      split: option.splits prod.splits surface.splits)

lemma start_fields:
  "aborted (searchCountries_start q f s sf p) =
     (case currentAbortController p of None \<Rightarrow> aborted p | Some old \<Rightarrow> insert old (aborted p))"
  "currentAbortController (searchCountries_start q f s sf p) = Some (controllers p)"
  "controllers (searchCountries_start q f s sf p) = Suc (controllers p)"
  "pending (searchCountries_start q f s sf p) =
     (if well_formed (trim q) then pending p @
        [\<lparr>req_controller = controllers p, req_query = q, req_feedbackId = f,
          req_spinnerId = s, req_surface = sf\<rparr>] else pending p)"
  by (simp_all add: searchCountries_start_def Let_def)

lemma hide_timer_fields:
  "aborted (hide_timer p) = aborted p"
  "currentAbortController (hide_timer p) = currentAbortController p"
  "controllers (hide_timer p) = controllers p"
  "pending (hide_timer p) = pending p"
  by (simp_all add: hide_timer_def split: list.splits)

lemma aborted_step: "aborted p \<subseteq> aborted (step e p)"
  by (cases e)
    (auto simp: settle_fields start_fields hide_timer_fields searchForm_submit_def
      destSearchForm_submit_def Let_def split: option.splits)

lemma aborted_run: "aborted p \<subseteq> aborted (run es p)"
proof (induction es arbitrary: p)
  case Nil show ?case by simp
next
  case (Cons e es)
  have "aborted p \<subseteq> aborted (step e p)" by (rule aborted_step)
  also have "\<dots> \<subseteq> aborted (run es (step e p))" by (rule Cons.IH)
  finally show ?case by simp
qed

lemma page_inv_start:
  assumes "page_inv p"
  shows "page_inv (searchCountries_start q f s sf p)"
proof -
  from assms have d: "distinct (map req_controller (pending p))"
    and lt: "\<forall>r \<in> set (pending p). req_controller r < controllers p"
    and ca: "\<forall>r \<in> set (pending p). currentAbortController p = Some (req_controller r) \<or>
               req_controller r \<in> aborted p"
    by (simp_all add: page_inv_def list_all_iff)
  have ab: "\<forall>r \<in> set (pending p). req_controller r \<in> aborted (searchCountries_start q f s sf p)"
    using ca by (auto simp: start_fields split: option.splits)
  have fresh: "controllers p \<notin> req_controller ` set (pending p)"
    using lt by auto
  show ?thesis
    unfolding page_inv_def list_all_iff
    using d lt ab fresh
    by (auto simp: start_fields(2,3,4) less_Suc_eq)
qed

lemma page_inv_feedback: "page_inv (showFeedback i m ty p) = page_inv p"
  by (simp add: page_inv_def)

lemma page_inv_frame:
  "page_inv (p\<lparr>results_section := x\<rparr>) = page_inv p"
  "page_inv (p\<lparr>map_container := y\<rparr>) = page_inv p"
  "page_inv (p\<lparr>mainMap := z\<rparr>) = page_inv p"
  by (simp_all add: page_inv_def)

lemma page_inv_settle:
  assumes "page_inv p"
  shows "page_inv (settle c t p)"
  using assms unfolding page_inv_def list_all_iff
  by (auto simp: settle_fields distinct_map_filter split: option.splits)

lemma page_inv_step: "page_inv p \<Longrightarrow> page_inv (step e p)"
proof (cases e)
  case (SubmitHome q)
  assume "page_inv p"
  then show ?thesis using SubmitHome
    by (simp add: searchForm_submit_def Let_def page_inv_feedback page_inv_start page_inv_frame)
next
  case (SubmitDest q)
  assume "page_inv p"
  then show ?thesis using SubmitDest
    by (simp add: destSearchForm_submit_def Let_def page_inv_feedback page_inv_start)
next
  case (Settle c t)
  assume "page_inv p"
  then show ?thesis using Settle by (simp add: page_inv_settle)
next
  case HideTimer
  assume "page_inv p"
  then show ?thesis using HideTimer by (simp add: page_inv_def hide_timer_fields)
qed

lemma page_inv_run: "page_inv p \<Longrightarrow> page_inv (run es p)"
  by (induction es arbitrary: p) (simp_all add: page_inv_step)

lemma page_inv_loaded: "page_inv (loaded a b c d e f g)"
  by (simp add: page_inv_def loaded_def)

lemma page_inv_reachable: "page_inv (run es (loaded a b c d e f g))"
  by (simp add: page_inv_run page_inv_loaded)

lemma in_flight_Some: "in_flight p c = Some r \<Longrightarrow> r \<in> set (pending p) \<and> req_controller r = c"
  by (auto simp: in_flight_def find_Some_iff)

lemma submit_aborts_in_flight:
  assumes "page_inv p" and "in_flight p c = Some r" and "has_form sf p"
    and "valid (validateSearchInput q)"
  shows "c \<in> aborted (step (submit sf q) p)"
proof -
  from in_flight_Some[OF assms(2)] have r: "r \<in> set (pending p)" "req_controller r = c" by simp_all
  with assms(1) have "currentAbortController p = Some c \<or> c \<in> aborted p"
    by (auto simp: page_inv_def list_all_iff)
  then show ?thesis using assms(3,4)
    by (cases sf) (auto simp: searchForm_submit_def destSearchForm_submit_def Let_def start_fields
        split: option.splits)
qed

lemma settle_aborted:
  assumes "c \<in> aborted p"
  shows "viewState sf (settle c t p) = viewState sf p"
    and "feedbacks (settle c t p) = feedbacks p"
    and "hide_timers (settle c t p) = hide_timers p"
proof -
  have obs: "observed p r t = FetchRejected AbortError" if "in_flight p c = Some r" for r
    using in_flight_Some[OF that] assms by (simp add: observed_def)
  show "viewState sf (settle c t p) = viewState sf p"
    "feedbacks (settle c t p) = feedbacks p"
    "hide_timers (settle c t p) = hide_timers p"
    using obs
    by (auto simp: settle_def searchCountries_settle_def searchCountries_result_def catch_block_def
        searchForm_resume_def destSearchForm_resume_def Let_def split: option.splits surface.splits)
qed

lemma settle_not_current:
  assumes "page_inv p" and "currentAbortController p \<noteq> Some c"
  shows "viewState sf (settle c t p) = viewState sf p"
proof (cases "in_flight p c")
  case None
  then show ?thesis by (simp add: settle_def)
next
  case (Some r)
  from in_flight_Some[OF Some] assms have "c \<in> aborted p"
    by (auto simp: page_inv_def list_all_iff)
  then show ?thesis by (rule settle_aborted)
qed

text \<open>The markers on a map stay those of its marker array.\<close>

lemma markers_inv_display_home: "markers_inv p \<Longrightarrow> markers_inv (display_home cs p)"
  using displayResults_shown[of "mainMap p" "mainMarkers p" cs "grids p ''results-grid''"]
  by (auto simp: markers_inv_def display_home_def split: prod.splits)

lemma markers_inv_display_dest: "markers_inv p \<Longrightarrow> markers_inv (display_dest cs p)"
  using displayResults_shown[of "destMap p" "destMarkers p" cs "grids p ''dest-grid''"]
  by (auto simp: markers_inv_def display_dest_def split: prod.splits)

lemma markers_inv_viewState:
  "markers_inv p \<longleftrightarrow> (\<forall>sf. fst (snd (viewState sf p)) = snd (snd (viewState sf p)))"
proof
  assume "markers_inv p"
  then show "\<forall>sf. fst (snd (viewState sf p)) = snd (snd (viewState sf p))"
    by (auto simp: markers_inv_def viewState.simps intro: surface.induct)
next
  assume a: "\<forall>sf. fst (snd (viewState sf p)) = snd (snd (viewState sf p))"
  from a[rule_format, of Home] a[rule_format, of Dest] show "markers_inv p"
    by (simp add: markers_inv_def viewState.simps)
qed

lemma markers_inv_step: "markers_inv p \<Longrightarrow> markers_inv (step e p)"
proof (cases e)
  case (SubmitHome q)
  assume "markers_inv p"
  then show ?thesis
    using viewState_step_submit[of _ Home q p] SubmitHome
    unfolding markers_inv_viewState by (simp del: step.simps)
next
  case (SubmitDest q)
  assume "markers_inv p"
  then show ?thesis
    using viewState_step_submit[of _ Dest q p] SubmitDest
    unfolding markers_inv_viewState by (simp del: step.simps)
next
  case (Settle c t)
  assume m: "markers_inv p"
  have 1: "markers_inv (toggleSpinner i b x) = markers_inv x" for i b x
    by (simp add: markers_inv_viewState)
  have 2: "markers_inv (showFeedback i msg ty x) = markers_inv x" for i msg ty x
    by (simp add: markers_inv_viewState)
  have 3: "markers_inv (x\<lparr>pending := y\<rparr>) = markers_inv x" for x y
    by (simp add: markers_inv_viewState)
  have 4: "markers_inv (x\<lparr>results_title := y\<rparr>) = markers_inv x"
    "markers_inv (x\<lparr>results_count := y\<rparr>) = markers_inv x" for x y
    by (simp_all add: markers_inv_viewState)
  show ?thesis using m Settle
    by (auto simp: settle_def searchCountries_settle_def searchForm_resume_def
        destSearchForm_resume_def Let_def 1 2 3 4 markers_inv_display_home markers_inv_display_dest
        split: option.splits prod.splits surface.splits)
next
  case HideTimer
  assume "markers_inv p"
  then show ?thesis using HideTimer
    by (simp add: markers_inv_viewState hide_timer_def split: list.splits)
qed

lemma markers_inv_run: "markers_inv p \<Longrightarrow> markers_inv (run es p)"
  by (induction es arbitrary: p) (simp_all add: markers_inv_step)

lemma markers_inv_loaded: "markers_inv (loaded a b c d e f g)"
  by (simp add: markers_inv_def loaded_def shown_markers_def initMap_def)

lemma markers_inv_reachable: "markers_inv (run es (loaded a b c d e f g))"
  by (simp add: markers_inv_run markers_inv_loaded)

lemma home_searching:
  "pending (step (SubmitHome japan) home_page) = [home_request 0 japan]"
  "aborted (step (SubmitHome japan) home_page) = {}"
  "currentAbortController (step (SubmitHome japan) home_page) = Some 0"
  "has_searchForm (step (SubmitHome japan) home_page)"
  by (simp_all add: home_page_def loaded_def searchForm_submit_def Let_def searchCountries_start_def
      toggleSpinner_def initMap_def home_request_def)

subsection \<open>Superseded searches\<close>

text \<open>
  Claim C1. In a state the document can reach (\<open>page_inv\<close>), let a request be in flight
  on a surface when a valid search is submitted on the same surface. From then on,
  whatever happens in between, the first request's controller is aborted, so the request
  can only settle as cancelled: settling it changes neither what any surface displays nor
  any feedback element, and starts no feedback timer. At every such moment a request
  other than the current controller's leaves the display alone when it settles.
\<close>

theorem superseded_search_discarded:
  assumes "page_inv p" and "in_flight p c1 = Some r1" and "req_surface r1 = sf"
    and "has_form sf p" and "valid (validateSearchInput q2)"
  shows "c1 \<in> aborted (run evs (step (submit sf q2) p)) \<and>
         lookup_outcome (req_query r1) (observed (run evs (step (submit sf q2) p)) r1 t) = Cancelled \<and>
         viewState sf' (step (Settle c1 t) (run evs (step (submit sf q2) p))) =
           viewState sf' (run evs (step (submit sf q2) p)) \<and>
         feedbacks (step (Settle c1 t) (run evs (step (submit sf q2) p))) =
           feedbacks (run evs (step (submit sf q2) p)) \<and>
         hide_timers (step (Settle c1 t) (run evs (step (submit sf q2) p))) =
           hide_timers (run evs (step (submit sf q2) p)) \<and>
         (currentAbortController (run evs (step (submit sf q2) p)) \<noteq> Some c \<longrightarrow>
          viewState sf' (step (Settle c t) (run evs (step (submit sf q2) p))) =
            viewState sf' (run evs (step (submit sf q2) p)))"
proof -
  let ?p = "run evs (step (submit sf q2) p)"
  have "c1 \<in> aborted (step (submit sf q2) p)"
    using assms(1,2,4,5) by (rule submit_aborts_in_flight)
  then have ab: "c1 \<in> aborted ?p" using aborted_run by blast
  have c: "req_controller r1 = c1" using in_flight_Some[OF assms(2)] by simp
  have out: "lookup_outcome (req_query r1) (observed ?p r1 t) = Cancelled"
    using ab c by (simp add: observed_def lookup_outcome_def searchCountries_result_def catch_block_def)
  have inv: "page_inv ?p" using assms(1) by (simp add: page_inv_step page_inv_run)
  show ?thesis
    using ab out settle_aborted[OF ab] settle_not_current[OF inv] by simp
qed

theorem superseded_search_discarded_witness:
  "page_inv (step (SubmitHome japan) home_page) \<and>
   in_flight (step (SubmitHome japan) home_page) 0 = Some (home_request 0 japan) \<and>
   req_surface (home_request 0 japan) = Home \<and>
   has_form Home (step (SubmitHome japan) home_page) \<and>
   valid (validateSearchInput italy) \<and>
   0 \<in> aborted (run [] (step (submit Home italy) (step (SubmitHome japan) home_page))) \<and>
   lookup_outcome japan
     (observed (run [] (step (submit Home italy) (step (SubmitHome japan) home_page)))
        (home_request 0 japan) japan_found) = Cancelled \<and>
   viewState Home (step (Settle 0 japan_found)
       (run [] (step (submit Home italy) (step (SubmitHome japan) home_page)))) =
     viewState Home (run [] (step (submit Home italy) (step (SubmitHome japan) home_page))) \<and>
   feedbacks (step (Settle 0 japan_found)
       (run [] (step (submit Home italy) (step (SubmitHome japan) home_page)))) =
     feedbacks (run [] (step (submit Home italy) (step (SubmitHome japan) home_page)))"
proof -
  have inv: "page_inv (step (SubmitHome japan) home_page)"
    by (simp only: home_page_def page_inv_step page_inv_loaded)
  have fl: "in_flight (step (SubmitHome japan) home_page) 0 = Some (home_request 0 japan)"
    by (simp add: in_flight_def home_searching home_request_def del: step.simps)
  have sf: "req_surface (home_request 0 japan) = Home" by (simp add: home_request_def)
  have hf: "has_form Home (step (SubmitHome japan) home_page)" by (simp add: home_searching del: step.simps)
  have q: "req_query (home_request 0 japan) = japan" by (simp add: home_request_def)
  show ?thesis
    using superseded_search_discarded[OF inv fl sf hf valid_italy, of "[]" japan_found Home 0]
      inv fl sf hf q
    by (simp del: step.simps)
qed

subsection \<open>Outcomes\<close>

text \<open>
  Claim C4, as the code has it. Status 404 gives Empty; any other status outside 200 to
  299 and any rejection that is not an AbortError give NetworkError; an AbortError, from
  \<^verbatim>\<open>fetch\<close> or from reading the body, gives Cancelled; with a status from 200 to 299, a
  payload that is no array or is the empty array gives Empty, a body that does not parse
  gives NetworkError, and a non-empty array gives Success with the array as it came.
\<close>

theorem lookup_outcome_mapping:
  "lookup_outcome q (FetchResponse 404 b) = Empty \<and>
   (\<not> response_ok s \<and> s \<noteq> 404 \<longrightarrow> lookup_outcome q (FetchResponse s b) = NetworkError) \<and>
   (e \<noteq> AbortError \<longrightarrow> lookup_outcome q (FetchRejected e) = NetworkError) \<and>
   lookup_outcome q (FetchRejected AbortError) = Cancelled \<and>
   (response_ok s \<longrightarrow>
      lookup_outcome q (FetchResponse s (JsonRejected AbortError)) = Cancelled \<and>
      (e \<noteq> AbortError \<longrightarrow> lookup_outcome q (FetchResponse s (JsonRejected e)) = NetworkError) \<and>
      lookup_outcome q (FetchResponse s (JsonValue (NonArray v))) = Empty \<and>
      lookup_outcome q (FetchResponse s (JsonValue (Array []))) = Empty \<and>
      lookup_outcome q (FetchResponse s (JsonValue (Array (c # cs)))) = Success (c # cs))"
  by (simp add: lookup_outcome_def searchCountries_result_def catch_block_def response_ok_def)

theorem lookup_outcome_mapping_witness:
  "\<not> response_ok 500 \<and> (500::nat) \<noteq> 404 \<and>
   lookup_outcome japan (FetchResponse 500 (JsonValue (Array []))) = NetworkError \<and>
   SyntaxError \<noteq> AbortError \<and>
   lookup_outcome japan (FetchRejected SyntaxError) = NetworkError \<and>
   response_ok 200 \<and>
   lookup_outcome japan (FetchResponse 200 (JsonRejected AbortError)) = Cancelled \<and>
   lookup_outcome japan (FetchResponse 200 (JsonRejected SyntaxError)) = NetworkError \<and>
   lookup_outcome japan (FetchResponse 200 (JsonValue (NonArray VNull))) = Empty \<and>
   lookup_outcome japan (FetchResponse 200 (JsonValue (Array []))) = Empty \<and>
   lookup_outcome japan (FetchResponse 200 (JsonValue (Array [named japan]))) = Success [named japan]"
  using lookup_outcome_mapping[of japan "JsonValue (Array [])" 500 SyntaxError VNull "named japan" "[]"]
    lookup_outcome_mapping[of japan "JsonValue (Array [])" 200 SyntaxError VNull "named japan" "[]"]
  by (simp add: response_ok_def)

text \<open>
  Claim C4 as stated fails for a malformed payload: a response with status 200 whose body
  does not parse ends in the catch block, which shows the error notice.
\<close>

theorem lookup_outcome_mapping_counterexample:
  "response_ok 200 \<and>
   lookup_outcome japan (delivered (Http 200 None)) = NetworkError \<and>
   lookup_outcome japan (delivered (Http 200 None)) \<noteq> Empty"
  by (simp add: lookup_outcome_def searchCountries_result_def catch_block_def response_ok_def delivered_def)

subsection \<open>Searches without a result\<close>

lemma result_empty_iff:
  "fst (searchCountries_result q out) = [] \<longleftrightarrow> \<not> is_Success (lookup_outcome q out)"
  by (cases "searchCountries_result q out"; cases "fst (searchCountries_result q out)")
    (auto simp: lookup_outcome_def split: option.splits)

lemma settle_empty:
  assumes "in_flight p c = Some r" and "fst (searchCountries_result (req_query r) (observed p r t)) = []"
  shows "viewState sf (settle c t p) = viewState sf p"
proof -
  obtain fb where res: "searchCountries_result (req_query r) (observed p r t) = ([], fb)"
    using assms(2) by (cases "searchCountries_result (req_query r) (observed p r t)") simp
  show ?thesis
    using assms(1) res
    by (simp add: settle_def searchCountries_settle_def searchForm_resume_def
        destSearchForm_resume_def Let_def split: option.splits surface.splits prod.splits)
qed

text \<open>
  Claim C5. Submitting a search changes no surface's cards and markers, and neither does
  the settling of a request whose outcome is not a success (empty, network error or
  cancelled).
\<close>

theorem failed_search_keeps_view:
  "viewState sf (step (submit sf' q) p) = viewState sf p \<and>
   (in_flight p c = Some r \<and> \<not> is_Success (lookup_outcome (req_query r) (observed p r t)) \<longrightarrow>
    viewState sf (step (Settle c t) p) = viewState sf p)"
  using viewState_step_submit settle_empty result_empty_iff by simp

lemma home_in_flight:
  "in_flight (step (SubmitHome japan) home_page) 0 = Some (home_request 0 japan)"
  by (simp add: in_flight_def home_searching home_request_def del: step.simps)

theorem failed_search_keeps_view_witness:
  "in_flight (step (SubmitHome japan) home_page) 0 = Some (home_request 0 japan) \<and>
   lookup_outcome (req_query (home_request 0 japan))
     (observed (step (SubmitHome japan) home_page) (home_request 0 japan) (Http 404 None)) = Empty \<and>
   viewState Home (step (Settle 0 (Http 404 None)) (step (SubmitHome japan) home_page)) =
     viewState Home (step (SubmitHome japan) home_page) \<and>
   viewState Home (step (SubmitHome japan) home_page) = (Some [], [], [])"
proof -
  have o: "lookup_outcome (req_query (home_request 0 japan))
     (observed (step (SubmitHome japan) home_page) (home_request 0 japan) (Http 404 None)) = Empty"
    by (simp add: observed_def home_searching home_request_def delivered_def lookup_outcome_def
        searchCountries_result_def response_ok_def del: step.simps)
  have v: "viewState Home home_page = (Some [], [], [])"
    by (simp add: viewState.simps home_page_def loaded_def shown_markers_def)
  show ?thesis
    using failed_search_keeps_view[of Home Home japan home_page]
      failed_search_keeps_view[of Home Home japan "step (SubmitHome japan) home_page" 0
        "home_request 0 japan" "Http 404 None"]
      home_in_flight o v
    by (simp del: step.simps)
qed

subsection \<open>One form per page\<close>

lemma forms_helpers [simp]:
  "has_searchForm (toggleSpinner i b p) = has_searchForm p"
  "has_destSearchForm (toggleSpinner i b p) = has_destSearchForm p"
  "has_searchForm (showFeedback i m ty p) = has_searchForm p"
  "has_destSearchForm (showFeedback i m ty p) = has_destSearchForm p"
  "has_searchForm (display_home cs p) = has_searchForm p"
  "has_destSearchForm (display_home cs p) = has_destSearchForm p"
  "has_searchForm (display_dest cs p) = has_searchForm p"
  "has_destSearchForm (display_dest cs p) = has_destSearchForm p"
  by (simp_all add: toggleSpinner_def showFeedback_def display_home_def display_dest_def Let_def
      split: option.splits prod.splits)

lemma forms_start [simp]:
  "has_searchForm (searchCountries_start q f s sf p) = has_searchForm p"
  "has_destSearchForm (searchCountries_start q f s sf p) = has_destSearchForm p"
  by (simp_all add: searchCountries_start_def Let_def)

lemma forms_step:
  "has_searchForm (step e p) = has_searchForm p"
  "has_destSearchForm (step e p) = has_destSearchForm p"
  by (cases e;
      simp add: searchForm_submit_def destSearchForm_submit_def settle_def searchCountries_settle_def
        searchForm_resume_def destSearchForm_resume_def hide_timer_def Let_def
        split: option.splits prod.splits surface.splits list.splits)+

lemma has_form_step: "has_form sf (step e p) = has_form sf p"
  by (cases sf) (simp_all add: forms_step del: step.simps)

lemma one_form_step: "one_form (step e p) = one_form p"
  by (simp add: one_form_def forms_step del: step.simps)

lemma one_form_run: "one_form (run es p) = one_form p"
  by (induction es arbitrary: p) (simp_all add: one_form_step del: step.simps)

lemma pending_step:
  "r \<in> set (pending (step e p)) \<Longrightarrow> r \<in> set (pending p) \<or> has_form (req_surface r) p"
proof (cases e)
  case (SubmitHome q)
  assume "r \<in> set (pending (step e p))"
  then show ?thesis using SubmitHome
    by (auto simp: searchForm_submit_def Let_def start_fields split: if_splits)
next
  case (SubmitDest q)
  assume "r \<in> set (pending (step e p))"
  then show ?thesis using SubmitDest
    by (auto simp: destSearchForm_submit_def Let_def start_fields split: if_splits)
next
  case (Settle c t)
  assume "r \<in> set (pending (step e p))"
  then show ?thesis using Settle by (auto simp: settle_fields split: option.splits)
next
  case HideTimer
  assume "r \<in> set (pending (step e p))"
  then show ?thesis using HideTimer by (simp add: hide_timer_fields)
qed

lemma forms_inv_step: "forms_inv p \<Longrightarrow> forms_inv (step e p)"
  unfolding forms_inv_def list_all_iff using pending_step[of _ e p] has_form_step[of _ e p]
  by blast

lemma forms_inv_run: "forms_inv p \<Longrightarrow> forms_inv (run es p)"
  by (induction es arbitrary: p) (simp_all add: forms_inv_step del: step.simps)

lemma forms_inv_loaded: "forms_inv (loaded a b c d e f g)"
  by (simp add: forms_inv_def loaded_def)

lemma forms_inv_reachable: "forms_inv (run es (loaded a b c d e f g))"
  by (simp add: forms_inv_run forms_inv_loaded)

lemma one_form_reachable:
  "one_form (run es (loaded a b c d e f g)) = (\<not> (a \<and> b))"
  by (simp add: one_form_run) (simp add: one_form_def loaded_def)







subsection \<open>The spinner\<close>

text \<open>
  Claim C7 at a concrete run of the home page: Japan is searched, then Italy while the
  first request is in flight. The spinner is on after each submit. The first request
  settles as cancelled and its finally block hides the spinner, while the second request
  is still in flight and not aborted.
\<close>

theorem spinner_hidden_while_loading:
  "spinners (run [SubmitHome japan] home_page) ''search-spinner'' = Some True \<and>
   spinners (run [SubmitHome japan, SubmitHome italy] home_page) ''search-spinner'' = Some True \<and>
   in_flight (run [SubmitHome japan, SubmitHome italy, Settle 0 japan_found] home_page) 1 =
     Some (home_request 1 italy) \<and>
   1 \<notin> aborted (run [SubmitHome japan, SubmitHome italy, Settle 0 japan_found] home_page) \<and>
   spinners (run [SubmitHome japan, SubmitHome italy, Settle 0 japan_found] home_page)
     ''search-spinner'' = Some False"
  by (simp add: home_page_def loaded_def searchForm_submit_def Let_def
      searchCountries_start_def toggleSpinner_def initMap_def settle_def in_flight_def
      searchCountries_settle_def observed_def searchCountries_result_def catch_block_def
      searchForm_resume_def home_request_def)


section \<open>Input validation\<close>

lemma format_letter_char: "format_letter c \<Longrightarrow> format_char c"
  by (auto simp: format_letter_def format_char_def)

lemma invalid_submit_fields:
  assumes "\<not> valid (validateSearchInput v)"
  shows "fetched (step (submit sf v) p) = fetched p"
    and "pending (step (submit sf v) p) = pending p"
    and "aborted (step (submit sf v) p) = aborted p"
    and "currentAbortController (step (submit sf v) p) = currentAbortController p"
  using assms
  by (cases sf; simp add: searchForm_submit_def destSearchForm_submit_def Let_def)+

text \<open>
  Claim C3, as the code has it. \<^verbatim>\<open>validateSearchInput\<close> is a function of its argument
  alone. The checks come in the order empty, too short, too long, format, and the first
  that fails gives the message. An input whose trimmed form has 2 to 100 code units, all
  of them letters a to z, A to Z or letters of U+00C0 to U+00FF, white space, hyphens or
  apostrophes, is valid; one of that length with a code unit outside
  \<^verbatim>\<open>[a-zA-Z\<close>U+00C0\<^verbatim>\<open>-\<close>U+00FF\<^verbatim>\<open>\s\-']\<close> gets the format message. Submitting an
  invalid input on either form sends no lookup and leaves the requests in flight and the
  controller as they are.
\<close>

theorem validateSearchInput_cases:
  "(trim v = [] \<longrightarrow>
      validateSearchInput v =
        \<lparr>valid = False, message = lit ''Please enter a country name to search.''\<rparr>) \<and>
   (length (trim v) = 1 \<longrightarrow>
      validateSearchInput v =
        \<lparr>valid = False, message = lit ''Search must be at least 2 characters long.''\<rparr>) \<and>
   (100 < length (trim v) \<longrightarrow>
      validateSearchInput v =
        \<lparr>valid = False, message = lit ''Search term is too long. Please shorten it.''\<rparr>) \<and>
   (2 \<le> length (trim v) \<and> length (trim v) \<le> 100 \<and> \<not> list_all format_char (trim v) \<longrightarrow>
      validateSearchInput v =
        \<lparr>valid = False, message = lit ''Please enter a valid country name (letters only).''\<rparr>) \<and>
   (2 \<le> length (trim v) \<and> length (trim v) \<le> 100 \<and>
    list_all (\<lambda>c. format_letter c \<or> is_space c \<or> c = 0x2D \<or> c = 0x27) (trim v) \<longrightarrow>
      validateSearchInput v = \<lparr>valid = True, message = []\<rparr>) \<and>
   (\<not> valid (validateSearchInput v) \<longrightarrow>
      fetched (step (submit sf v) p) = fetched p \<and>
      pending (step (submit sf v) p) = pending p \<and>
      aborted (step (submit sf v) p) = aborted p \<and>
      currentAbortController (step (submit sf v) p) = currentAbortController p)"
proof -
  have nil: "v = [] \<Longrightarrow> trim v = []" by (simp add: trim_def)
  have a: "trim v = [] \<longrightarrow> validateSearchInput v =
        \<lparr>valid = False, message = lit ''Please enter a country name to search.''\<rparr>"
    by (simp add: validateSearchInput_def)
  have b: "length (trim v) = 1 \<longrightarrow> validateSearchInput v =
        \<lparr>valid = False, message = lit ''Search must be at least 2 characters long.''\<rparr>"
    using nil by (auto simp: validateSearchInput_def Let_def)
  have c: "100 < length (trim v) \<longrightarrow> validateSearchInput v =
        \<lparr>valid = False, message = lit ''Search term is too long. Please shorten it.''\<rparr>"
    using nil by (auto simp: validateSearchInput_def Let_def)
  have d: "2 \<le> length (trim v) \<and> length (trim v) \<le> 100 \<and> \<not> list_all format_char (trim v) \<longrightarrow>
      validateSearchInput v =
        \<lparr>valid = False, message = lit ''Please enter a valid country name (letters only).''\<rparr>"
    using nil by (auto simp: validateSearchInput_def Let_def format_test_def)
  have e: "2 \<le> length (trim v) \<and> length (trim v) \<le> 100 \<and>
    list_all (\<lambda>c. format_letter c \<or> is_space c \<or> c = 0x2D \<or> c = 0x27) (trim v) \<longrightarrow>
      validateSearchInput v = \<lparr>valid = True, message = []\<rparr>"
  proof
    assume h: "2 \<le> length (trim v) \<and> length (trim v) \<le> 100 \<and>
      list_all (\<lambda>c. format_letter c \<or> is_space c \<or> c = 0x2D \<or> c = 0x27) (trim v)"
    then have "list_all format_char (trim v)"
      unfolding list_all_iff using format_letter_char by (auto simp: format_char_def)
    moreover from h have "trim v \<noteq> []" by auto
    ultimately show "validateSearchInput v = \<lparr>valid = True, message = []\<rparr>"
      using h nil by (auto simp: validateSearchInput_def Let_def format_test_def)
  qed
  show ?thesis using a b c d e invalid_submit_fields[of v sf p] by blast
qed

lemma trim_spaces: "trim [32, 32] = []" by (simp add: trim_def is_space_def)
lemma trim_a: "trim [97] = [97]" by (simp add: trim_def)
lemma trim_long: "trim (replicate 101 97) = replicate 101 97"
  by (rule trim_id) (simp_all add: hd_replicate last_replicate)

lemma format_japan: "list_all (\<lambda>c. format_letter c \<or> is_space c \<or> c = 0x2D \<or> c = 0x27) japan"
  by (simp add: japan_def format_letter_def)

lemma format_lodz: "\<not> list_all format_char lodz"
  by (simp add: lodz_def format_char_def is_space_def)

lemma trim_lodz: "trim lodz = lodz"
  by (simp add: trim_def lodz_def is_space_def)

theorem validateSearchInput_cases_witness:
  "trim [32, 32] = [] \<and>
   validateSearchInput [32, 32] =
     \<lparr>valid = False, message = lit ''Please enter a country name to search.''\<rparr> \<and>
   length (trim [97]) = 1 \<and>
   validateSearchInput [97] =
     \<lparr>valid = False, message = lit ''Search must be at least 2 characters long.''\<rparr> \<and>
   100 < length (trim (replicate 101 97)) \<and>
   validateSearchInput (replicate 101 97) =
     \<lparr>valid = False, message = lit ''Search term is too long. Please shorten it.''\<rparr> \<and>
   2 \<le> length (trim lodz) \<and> length (trim lodz) \<le> 100 \<and> \<not> list_all format_char (trim lodz) \<and>
   validateSearchInput lodz =
     \<lparr>valid = False, message = lit ''Please enter a valid country name (letters only).''\<rparr> \<and>
   2 \<le> length (trim japan) \<and> length (trim japan) \<le> 100 \<and>
   list_all (\<lambda>c. format_letter c \<or> is_space c \<or> c = 0x2D \<or> c = 0x27) (trim japan) \<and>
   validateSearchInput japan = \<lparr>valid = True, message = []\<rparr> \<and>
   \<not> valid (validateSearchInput [97]) \<and>
   fetched (step (submit Home [97]) home_page) = fetched home_page \<and>
   pending (step (submit Home [97]) home_page) = pending home_page"
  using validateSearchInput_cases[of "[32, 32]" Home home_page]
    validateSearchInput_cases[of "[97]" Home home_page]
    validateSearchInput_cases[of "replicate 101 97" Home home_page]
    validateSearchInput_cases[of lodz Home home_page]
    validateSearchInput_cases[of japan Home home_page]
  by (simp add: trim_spaces trim_a trim_long trim_lodz format_japan format_lodz del: step.simps submit.simps)
    (simp add: japan_def lodz_def)

text \<open>
  Claim C3 as stated fails: the trimmed input of four letters, two of them Unicode letters
  outside Latin-1, has an admissible length and is rejected by the format check.
\<close>

theorem validateSearchInput_cases_counterexample:
  "list_all spec_char (trim lodz) \<and> 2 \<le> length (trim lodz) \<and> length (trim lodz) \<le> 100 \<and>
   validateSearchInput lodz =
     \<lparr>valid = False, message = lit ''Please enter a valid country name (letters only).''\<rparr>"
  by (simp add: trim_lodz validateSearchInput_def Let_def)
    (simp add: lodz_def spec_char_def spec_letter_def format_test_def format_char_def is_space_def)

text \<open>
  The range U+00C0 to U+00FF of the format check also holds the multiplication sign
  U+00D7 and the division sign U+00F7, which are no letters: the text a, U+00D7, b passes.
\<close>

lemma trim_a_times_b: "trim a_times_b = a_times_b"
  by (simp add: trim_def a_times_b_def is_space_def)

lemma times_sign_accepted: "validateSearchInput a_times_b = \<lparr>valid = True, message = []\<rparr>"
  by (simp add: trim_a_times_b validateSearchInput_def Let_def)
    (simp add: a_times_b_def format_test_def format_char_def)

section \<open>Featured destinations\<close>

lemma featured_loop_grid:
  "f_grid (featured_loop ns net st) = f_grid st @ List.map_filter (\<lambda>n. featured_card (net n)) ns"
  by (induction ns arbitrary: st)
    (auto simp: featured_pass_def List.map_filter_simps split: option.splits)

lemma featured_loop_fetched:
  "f_fetched (featured_loop ns net st) = f_fetched st @ ns"
  by (induction ns arbitrary: st) (auto simp: featured_pass_def)

lemma lookup_failed_no_card: "lookup_failed out \<Longrightarrow> featured_card out = None"
  by (auto simp: lookup_failed_def featured_card_def split: fetch_outcome.splits)

text \<open>
  Claim C9. The loader looks each of its six names up once, in list order, and the grid
  ends as it began followed by the cards of the lookups that gave one, in list order: the
  card of a name depends on the outcome of its own lookup only. A failed lookup (rejected,
  status not 2xx, empty array) gives no card. In particular, when the lookups of the
  second and fifth name fail and the other four give the cards \<open>cd 0\<close>, \<open>cd 2\<close>,
  \<open>cd 3\<close>, \<open>cd 5\<close>, exactly these four are appended, in this order. The code keeps no
  table of states: a failed name is one without a card.
\<close>

theorem loadFeaturedDestinations_independent:
  "f_grid (loadFeaturedDestinations net grid) =
     grid @ List.map_filter (\<lambda>n. featured_card (net n)) featuredCountries \<and>
   f_fetched (loadFeaturedDestinations net grid) = featuredCountries \<and>
   length featuredCountries = 6 \<and>
   (\<forall>out. lookup_failed out \<longrightarrow> featured_card out = None) \<and>
   (lookup_failed (net (featuredCountries ! 1)) \<and> lookup_failed (net (featuredCountries ! 4)) \<and>
    (\<forall>i \<in> {0, 2, 3, 5}. featured_card (net (featuredCountries ! i)) = Some (cd i)) \<longrightarrow>
    f_grid (loadFeaturedDestinations net grid) = grid @ [cd 0, cd 2, cd 3, cd 5])"
proof -
  have g: "f_grid (loadFeaturedDestinations net grid) =
     grid @ List.map_filter (\<lambda>n. featured_card (net n)) featuredCountries"
    by (simp add: loadFeaturedDestinations_def featured_loop_grid)
  have f: "f_fetched (loadFeaturedDestinations net grid) = featuredCountries"
    by (simp add: loadFeaturedDestinations_def featured_loop_fetched)
  have l: "length featuredCountries = 6" by (simp add: featuredCountries_def)
  have n: "\<forall>out. lookup_failed out \<longrightarrow> featured_card out = None"
    by (simp add: lookup_failed_no_card)
  have e: "f_grid (loadFeaturedDestinations net grid) = grid @ [cd 0, cd 2, cd 3, cd 5]"
    if a: "lookup_failed (net (featuredCountries ! 1))" "lookup_failed (net (featuredCountries ! 4))"
      "\<forall>i \<in> {0, 2, 3, 5}. featured_card (net (featuredCountries ! i)) = Some (cd i)"
  proof -
    have "featured_card (net (lit ''Italy'')) = None" "featured_card (net (lit ''Morocco'')) = None"
      using a(1,2) lookup_failed_no_card by (simp_all add: featuredCountries_def)
    moreover have "featured_card (net (lit ''Japan'')) = Some (cd 0)"
      "featured_card (net (lit ''Brazil'')) = Some (cd 2)"
      "featured_card (net (lit ''Australia'')) = Some (cd 3)"
      "featured_card (net (lit ''Iceland'')) = Some (cd 5)"
      using a(3) by (simp_all add: featuredCountries_def)
    ultimately show ?thesis
      unfolding g by (simp add: featuredCountries_def List.map_filter_simps)
  qed
  show ?thesis using g f l n e by blast
qed

theorem loadFeaturedDestinations_independent_witness:
  "lookup_failed (featured_net (featuredCountries ! 1)) \<and>
   lookup_failed (featured_net (featuredCountries ! 4)) \<and>
   featured_card (featured_net (featuredCountries ! 0)) =
     Some (createCountryCard (named (featuredCountries ! 0))) \<and>
   featured_card (featured_net (featuredCountries ! 2)) =
     Some (createCountryCard (named (featuredCountries ! 2))) \<and>
   featured_card (featured_net (featuredCountries ! 3)) =
     Some (createCountryCard (named (featuredCountries ! 3))) \<and>
   featured_card (featured_net (featuredCountries ! 5)) =
     Some (createCountryCard (named (featuredCountries ! 5))) \<and>
   f_grid (loadFeaturedDestinations featured_net []) =
     [createCountryCard (named (lit ''Japan'')), createCountryCard (named (lit ''Brazil'')),
      createCountryCard (named (lit ''Australia'')), createCountryCard (named (lit ''Iceland''))] \<and>
   f_fetched (loadFeaturedDestinations featured_net []) =
     [lit ''Japan'', lit ''Italy'', lit ''Brazil'', lit ''Australia'', lit ''Morocco'', lit ''Iceland'']"
  using loadFeaturedDestinations_independent
    [of featured_net "[]" "\<lambda>i. createCountryCard (named (featuredCountries ! i))"]
  by (simp add: featured_net_def lookup_failed_def featured_card_def response_ok_def
      featuredCountries_def)

section \<open>Favourites: toggling\<close>

lemma indexOf_from_notin: "v \<notin> set xs \<Longrightarrow> indexOf_from xs v i = -1"
  by (induction xs arbitrary: i) auto

lemma indexOf_from_in:
  "0 \<le> i \<Longrightarrow> v \<in> set xs \<Longrightarrow> i \<le> indexOf_from xs v i \<and> indexOf_from xs v i < i + int (length xs)"
proof (induction xs arbitrary: i)
  case Nil then show ?case by simp
next
  case (Cons x xs)
  show ?case
  proof (cases "x = v")
    case True then show ?thesis by simp
  next
    case False
    with Cons.prems have vin: "v \<in> set xs" by simp
    from Cons.prems have i1: "0 \<le> i + 1" by simp
    from Cons.IH[OF i1 vin] False show ?thesis by simp
  qed
qed

lemma indexOf_from_splice:
  "0 \<le> i \<Longrightarrow> v \<in> set xs \<Longrightarrow>
   take (nat (indexOf_from xs v i - i)) xs @ drop (Suc (nat (indexOf_from xs v i - i))) xs = remove1 v xs"
proof (induction xs arbitrary: i)
  case Nil then show ?case by simp
next
  case (Cons x xs)
  show ?case
  proof (cases "x = v")
    case True then show ?thesis by simp
  next
    case False
    with Cons.prems have vin: "v \<in> set xs" by simp
    from Cons.prems have i1: "0 \<le> i + 1" by simp
    from indexOf_from_in[OF i1 vin] have "i + 1 \<le> indexOf_from xs v (i + 1)" by simp
    then have eq: "nat (indexOf_from xs v (i + 1) - i) = Suc (nat (indexOf_from xs v (i + 1) - (i + 1)))"
      by simp
    from Cons.IH[OF i1 vin] False eq show ?thesis by simp
  qed
qed

lemma indexOf_eq_minus1: "(indexOf xs v = -1) = (v \<notin> set xs)"
  using indexOf_from_notin[of v xs 0] indexOf_from_in[of 0 v xs] by (auto simp: indexOf_def)

lemma splice1_indexOf: "v \<in> set xs \<Longrightarrow> splice1 xs (indexOf xs v) = remove1 v xs"
  using indexOf_from_splice[of 0 v xs] by (simp add: splice1_def indexOf_def)

lemma getFavourites_save:
  "\<not> full ls \<Longrightarrow> getFavourites (saveFavourites (JArr xs) ls) = JArr xs"
  by (simp add: getFavourites_def saveFavourites_def)

lemma full_save: "full (saveFavourites v ls) = full ls"
  by (simp add: saveFavourites_def)

lemma toggleFavourite_array:
  assumes "getFavourites ls = JArr favs"
  shows "\<exists>b. toggleFavourite n btn ls =
           Inr (b, saveFavourites (JArr (if JStr n \<in> set favs then remove1 (JStr n) favs
                                         else favs @ [JStr n])) ls)"
  using assms by (simp add: toggleFavourite_def Let_def indexOf_eq_minus1 splice1_indexOf)

lemma isFavourite_array:
  "getFavourites ls = JArr favs \<Longrightarrow> isFavourite ls n = Inr (JStr n \<in> set favs)"
  by (simp add: isFavourite_def indexOf_eq_minus1)

lemma in_remove1_iff_count: "v \<in> set (remove1 v xs) \<longleftrightarrow> 2 \<le> count_list xs v"
proof (induction xs)
  case Nil then show ?case by simp
next
  case (Cons x xs)
  have pos: "(v \<in> set xs) = (1 \<le> count_list xs v)"
    using count_list_0_iff[of xs v] by arith
  show ?case
  proof (cases "x = v")
    case True then show ?thesis using pos by simp
  next
    case False then show ?thesis using Cons.IH by simp
  qed
qed

text \<open>
  Claim C10, as the code has it. When the stored value reads back as an array in which the
  name occurs at most once (an absent or malformed value reads as the empty array) and the
  storage accepts the write, one call of \<^verbatim>\<open>toggleFavourite\<close> negates
  \<^verbatim>\<open>isFavourite\<close>, and two calls give back the same favourites: the same list when
  the name was not a favourite, and otherwise the list with the name moved to its end (so
  the same list exactly when the name was already last).
\<close>

theorem toggleFavourite_twice:
  assumes "getFavourites ls = JArr favs" and "\<not> full ls" and "count_list favs (JStr n) \<le> 1"
  shows "\<exists>b1 l1 b2 l2.
           toggleFavourite n btn ls = Inr (b1, l1) \<and>
           isFavourite ls n = Inr (JStr n \<in> set favs) \<and>
           isFavourite l1 n = Inr (JStr n \<notin> set favs) \<and>
           toggle_twice n btn ls = Inr (b2, l2) \<and>
           getFavourites l2 =
             JArr (if JStr n \<in> set favs then remove1 (JStr n) favs @ [JStr n] else favs)"
proof -
  let ?v = "JStr n"
  let ?f1 = "if ?v \<in> set favs then remove1 ?v favs else favs @ [?v]"
  let ?l1 = "saveFavourites (JArr ?f1) ls"
  from toggleFavourite_array[OF assms(1)] obtain b1 where
    t1: "toggleFavourite n btn ls = Inr (b1, ?l1)" by blast
  have g1: "getFavourites ?l1 = JArr ?f1" using assms(2) by (rule getFavourites_save)
  have nf1: "\<not> full ?l1" using assms(2) by (simp add: full_save)
  have mem1: "(?v \<in> set ?f1) = (?v \<notin> set favs)"
    using assms(3) by (auto simp: in_remove1_iff_count)
  let ?f2 = "if ?v \<in> set ?f1 then remove1 ?v ?f1 else ?f1 @ [?v]"
  from toggleFavourite_array[OF g1] obtain b2 where
    t2: "toggleFavourite n b1 ?l1 = Inr (b2, saveFavourites (JArr ?f2) ?l1)" by blast
  have g2: "getFavourites (saveFavourites (JArr ?f2) ?l1) = JArr ?f2"
    using nf1 by (rule getFavourites_save)
  have f2: "?f2 = (if ?v \<in> set favs then remove1 ?v favs @ [?v] else favs)"
    using mem1 by (auto simp: remove1_append)
  have tt: "toggle_twice n btn ls = Inr (b2, saveFavourites (JArr ?f2) ?l1)"
    by (simp add: toggle_twice_def t1 t2)
  have i0: "isFavourite ls n = Inr (?v \<in> set favs)"
    using assms(1) by (rule isFavourite_array)
  have i1: "isFavourite ?l1 n = Inr (?v \<notin> set favs)"
    using isFavourite_array[OF g1, of n] mem1 by simp
  show ?thesis
    apply (rule exI[of _ b1], rule exI[of _ ?l1], rule exI[of _ b2])
    apply (rule exI[of _ "saveFavourites (JArr ?f2) ?l1"])
    using t1 i0 i1 tt g2 f2 by simp
qed

theorem toggleFavourite_twice_witness:
  "getFavourites \<lparr>item = Absent, full = False\<rparr> = JArr [] \<and>
   \<not> full \<lparr>item = Absent, full = False\<rparr> \<and>
   count_list [] (JStr (lit ''Japan'')) \<le> 1 \<and>
   (\<exists>b1 l1 b2 l2.
      toggleFavourite (lit ''Japan'')
          \<lparr>innerHTML = lit ''&#9825;'', favourited = False, aria_label = [], title = []\<rparr>
          \<lparr>item = Absent, full = False\<rparr> = Inr (b1, l1) \<and>
      isFavourite \<lparr>item = Absent, full = False\<rparr> (lit ''Japan'') = Inr False \<and>
      isFavourite l1 (lit ''Japan'') = Inr True \<and>
      toggle_twice (lit ''Japan'')
          \<lparr>innerHTML = lit ''&#9825;'', favourited = False, aria_label = [], title = []\<rparr>
          \<lparr>item = Absent, full = False\<rparr> = Inr (b2, l2) \<and>
      getFavourites l2 = JArr [])"
  using toggleFavourite_twice[of "\<lparr>item = Absent, full = False\<rparr>" "[]" "lit ''Japan''"
      "\<lparr>innerHTML = lit ''&#9825;'', favourited = False, aria_label = [], title = []\<rparr>"]
  by (simp add: getFavourites_def)

text \<open>
  Claim C10 as stated fails: with Japan and Italy saved in this order, toggling Japan twice
  leaves Italy first and Japan second, which is not the list read at the start.
\<close>

theorem toggleFavourite_twice_counterexample:
  "getFavourites \<lparr>item = Parses (JArr [JStr (lit ''Japan''), JStr (lit ''Italy'')]), full = False\<rparr>
     = JArr [JStr (lit ''Japan''), JStr (lit ''Italy'')] \<and>
   toggle_twice (lit ''Japan'')
     \<lparr>innerHTML = lit ''&#9829;'', favourited = True,
        aria_label = lit ''Remove '' @ lit ''Japan'' @ lit '' from favourites'',
        title = lit ''Remove from favourites''\<rparr>
     \<lparr>item = Parses (JArr [JStr (lit ''Japan''), JStr (lit ''Italy'')]), full = False\<rparr> =
     Inr (\<lparr>innerHTML = lit ''&#9829;'', favourited = True,
            aria_label = lit ''Remove '' @ lit ''Japan'' @ lit '' from favourites'',
        title = lit ''Remove from favourites''\<rparr>,
          \<lparr>item = Parses (JArr [JStr (lit ''Italy''), JStr (lit ''Japan'')]), full = False\<rparr>) \<and>
   getFavourites \<lparr>item = Parses (JArr [JStr (lit ''Italy''), JStr (lit ''Japan'')]), full = False\<rparr>
     \<noteq> getFavourites
         \<lparr>item = Parses (JArr [JStr (lit ''Japan''), JStr (lit ''Italy'')]), full = False\<rparr>"
  by (simp add: toggle_twice_def toggleFavourite_def getFavourites_def
      saveFavourites_def indexOf_def splice1_def Let_def)

end
